theory Spec2Isabelle
  imports Complex_Main "HOL-Library.Word"
begin

section \<open>Verification of Google identity tokens: the model\<close>

text \<open>
  The program is the Node.js server for Google sign-in. Its token pipeline consists of
  \<open>base64UrlDecode\<close>, \<open>parseJWT\<close> and \<open>verifyJWT\<close>. Every function of the program is
  embedded under its own name. What the program takes from the platform (the clock, the
  JSON parser, the network read of the key set, the RSA primitives) is a field of the
  record \<open>env\<close>, so that every theorem holds for each behaviour of the platform.
\<close>

subsection \<open>Values, errors, effects\<close>

type_synonym byte = "8 word"

text \<open>
  A string of the language is the sequence of its UTF-16 code units. \<open>cu c\<close> is the code
  unit of an ASCII character and \<open>lit s\<close> the string of an ASCII literal of the program.
\<close>

type_synonym jsstring = "16 word list"

abbreviation cu :: "char \<Rightarrow> 16 word" where
  "cu c \<equiv> of_char c"

definition lit :: "string \<Rightarrow> jsstring" where
  "lit s = map of_char s"

text \<open>
  A value as \<open>JSON.parse\<close> delivers it, and \<open>undefined\<close> for a property that is not
  there. A number is a finite double, hence a rational; the infinities that \<open>JSON.parse\<close>
  yields on an overflowing literal are left out. An object is the list of its own
  properties.
\<close>

datatype jsval =
    JUndefined
  | JNull
  | JBool bool
  | JNum rat
  | JStr jsstring
  | JArr "jsval list"
  | JObj "(jsstring \<times> jsval) list"

text \<open>
  The ways a call can end other than by returning. The first six are the \<open>Error\<close> objects
  the program throws itself, in this order: "Invalid JWT format", "Token has expired",
  "Token audience mismatch", "Invalid token issuer", "Public key not found", "Invalid
  token signature". \<open>MalformedEncoding\<close> and \<open>UnsupportedAlgorithm\<close> belong to the
  taxonomy of the specification; no statement of the program throws them. The next four
  are thrown by the platform: the promise of the key-set read is rejected, \<open>JSON.parse\<close>
  throws, a property of \<open>null\<close> or \<open>undefined\<close> is read or a non-function is called,
  \<open>crypto.createPublicKey\<close> throws. \<open>NonTermination\<close> stands for a loop that does not end.
\<close>

datatype error =
    MalformedToken
  | ClaimExpired
  | ClaimAudienceMismatch
  | ClaimIssuerMismatch
  | KeyNotFound
  | InvalidSignature
  | MalformedEncoding
  | UnsupportedAlgorithm
  | KeyFetchError
  | SyntaxError
  | TypeError
  | CryptoError
  | NonTermination

text \<open>The key object that \<open>crypto.createPublicKey\<close> builds from \<open>kty\<close>, \<open>n\<close> and \<open>e\<close>.\<close>

datatype pubkey = PublicKey jsval jsval jsval

text \<open>
  The observable effects of a verification: the network read of the key set, and the run
  of the RSA-SHA256 verification on a key, the signed data and the signature bytes.
\<close>

datatype event =
    FetchKeys
  | VerifySignature pubkey jsstring "byte list"

text \<open>
  The platform. \<open>now\<close> is \<open>Math.floor(Date.now() / 1000)\<close>. \<open>JSON_parse\<close> is
  \<open>JSON.parse(buffer.toString())\<close>, with \<open>None\<close> when it throws. \<open>to_number\<close> is the
  conversion of a string or an array to a number; it gives a number or \<open>NaN\<close>, or it
  throws (an array can hold an object that has no primitive value).
  \<open>fetchGooglePublicKeys\<close> is the value the promise of the key-set read resolves to,
  \<open>None\<close> when it is rejected.
  \<open>createPublicKey\<close> is \<open>None\<close> when the call throws. \<open>rsa_sha256_verify\<close> is the result
  of \<open>verify.verify\<close> after \<open>verify.update\<close> on the data.
\<close>

datatype conversion = Number rat | NaN | Throws

record env =
  now :: int
  JSON_parse :: "byte list \<Rightarrow> jsval option"
  to_number :: "jsval \<Rightarrow> conversion"
  fetchGooglePublicKeys :: "jsval option"
  createPublicKey :: "jsval \<Rightarrow> jsval \<Rightarrow> jsval \<Rightarrow> pubkey option"
  rsa_sha256_verify :: "pubkey \<Rightarrow> jsstring \<Rightarrow> byte list \<Rightarrow> bool"

definition CLIENT_ID :: jsstring where
  "CLIENT_ID = lit ''48315565897-6i3403uof617avnel62iu3jhcqo70u81.apps.googleusercontent.com''"

subsection \<open>Operations of the language\<close>

text \<open>
  Reading a property \<open>v.k\<close>: a \<open>TypeError\<close> on \<open>null\<close> and \<open>undefined\<close>, the own property
  of an object, \<open>undefined\<close> otherwise. The program reads the names \<open>exp\<close>, \<open>aud\<close>, \<open>iss\<close>,
  \<open>kid\<close>, \<open>keys\<close>, \<open>kty\<close>, \<open>n\<close> and \<open>e\<close>; none of them is inherited by a parsed value,
  but for \<open>keys\<close> on an array, which is a function and not an array either.
\<close>

fun get_prop :: "jsval \<Rightarrow> jsstring \<Rightarrow> error + jsval" where
  "get_prop JUndefined k = Inl TypeError"
| "get_prop JNull k = Inl TypeError"
| "get_prop (JObj kvs) k = Inr (case map_of kvs k of None \<Rightarrow> JUndefined | Some v \<Rightarrow> v)"
| "get_prop v k = Inr JUndefined"

text \<open>The truth value of a value in a condition.\<close>

fun truthy :: "jsval \<Rightarrow> bool" where
  "truthy JUndefined = False"
| "truthy JNull = False"
| "truthy (JBool b) = b"
| "truthy (JNum x) = (x \<noteq> 0)"
| "truthy (JStr s) = (s \<noteq> [])"
| "truthy (JArr xs) = True"
| "truthy (JObj kvs) = True"

text \<open>
  \<open>v < n\<close> for a number \<open>n\<close>: the value is converted to a number, \<open>NaN\<close> compares
  false. The conversion of an object asks for its \<open>valueOf\<close> and then for its \<open>toString\<close>.
  A property of a parsed object is never a function, and the inherited \<open>valueOf\<close> returns
  the object itself; so an object with a property \<open>toString\<close> of its own has no primitive
  value and the comparison throws a \<open>TypeError\<close>, and any other object converts to \<open>NaN\<close>
  through the inherited \<open>toString\<close>.
\<close>

fun lt_number :: "env \<Rightarrow> jsval \<Rightarrow> rat \<Rightarrow> error + bool" where
  "lt_number E JUndefined n = Inr False"
| "lt_number E JNull n = Inr (0 < n)"
| "lt_number E (JBool b) n = Inr ((if b then 1 else 0) < n)"
| "lt_number E (JNum x) n = Inr (x < n)"
| "lt_number E (JObj kvs) n =
     (case map_of kvs (lit ''toString'') of None \<Rightarrow> Inr False | Some f \<Rightarrow> Inl TypeError)"
| "lt_number E v n =
     (case to_number E v of
        Number x \<Rightarrow> Inr (x < n) | NaN \<Rightarrow> Inr False | Throws \<Rightarrow> Inl TypeError)"

text \<open>
  \<open>a === b\<close>. Two arrays or objects are equal only when they are the same object, which
  values from two calls of \<open>JSON.parse\<close> never are.
\<close>

fun strict_eq :: "jsval \<Rightarrow> jsval \<Rightarrow> bool" where
  "strict_eq JUndefined JUndefined = True"
| "strict_eq JNull JNull = True"
| "strict_eq (JBool a) (JBool b) = (a = b)"
| "strict_eq (JNum a) (JNum b) = (a = b)"
| "strict_eq (JStr a) (JStr b) = (a = b)"
| "strict_eq a b = False"

text \<open>\<open>s.split(sep)\<close> for a separator of one character; \<open>cur\<close> is the segment being read.\<close>

fun split_from :: "16 word \<Rightarrow> jsstring \<Rightarrow> jsstring \<Rightarrow> jsstring list" where
  "split_from sep cur [] = [cur]"
| "split_from sep cur (c # cs) =
     (if c = sep then cur # split_from sep [] cs else split_from sep (cur @ [c]) cs)"

definition split :: "16 word \<Rightarrow> jsstring \<Rightarrow> jsstring list" where
  "split sep s = split_from sep [] s"

text \<open>\<open>s.replace(/a/g, "b")\<close> for single characters.\<close>

definition replaceAll :: "16 word \<Rightarrow> 16 word \<Rightarrow> jsstring \<Rightarrow> jsstring" where
  "replaceAll a b s = map (\<lambda>c. if c = a then b else c) s"

text \<open>An element of an array inside a template literal: \<open>undefined\<close> prints as its name.\<close>

definition element :: "jsstring list \<Rightarrow> nat \<Rightarrow> jsstring" where
  "element xs i = (if i < length xs then xs ! i else lit ''undefined'')"

subsection \<open>The decoder of the platform\<close>

text \<open>
  \<open>Buffer.from(s, "base64")\<close> never throws on a string. It reads each code unit by its
  low byte: the high byte of a code unit above 255 is dropped. A low byte of the standard
  or of the URL-safe alphabet gives six bits, the low byte \<open>=\<close> ends the reading, and
  every other code unit is skipped. Four characters give three bytes; two or three
  remaining characters give one or two bytes, one remaining character gives none.
\<close>

definition low_byte :: "16 word \<Rightarrow> nat" where
  "low_byte u = unat u mod 256"

definition in_range :: "char \<Rightarrow> char \<Rightarrow> nat \<Rightarrow> bool" where
  "in_range lo hi c = (of_char lo \<le> c \<and> c \<le> of_char hi)"

definition unbase64 :: "nat \<Rightarrow> nat option" where
  "unbase64 c =
     (if in_range CHR ''A'' CHR ''Z'' c then Some (c - 65)
      else if in_range CHR ''a'' CHR ''z'' c then Some (c - 71)
      else if in_range CHR ''0'' CHR ''9'' c then Some (c + 4)
      else if c = of_char CHR ''+'' \<or> c = of_char CHR ''-'' then Some 62
      else if c = of_char CHR ''/'' \<or> c = of_char CHR ''_'' then Some 63
      else None)"

fun sextets :: "jsstring \<Rightarrow> nat list" where
  "sextets [] = []"
| "sextets (u # us) =
     (if low_byte u = of_char CHR ''='' then []
      else case unbase64 (low_byte u) of None \<Rightarrow> sextets us | Some v \<Rightarrow> v # sextets us)"

fun octets :: "nat list \<Rightarrow> byte list" where
  "octets (a # b # c # d # rest) =
     of_nat (a * 4 + b div 16) # of_nat (b mod 16 * 16 + c div 4)
       # of_nat (c mod 4 * 64 + d) # octets rest"
| "octets [a, b, c] = [of_nat (a * 4 + b div 16), of_nat (b mod 16 * 16 + c div 4)]"
| "octets [a, b] = [of_nat (a * 4 + b div 16)]"
| "octets rest = []"

definition Buffer_from_base64 :: "jsstring \<Rightarrow> byte list" where
  "Buffer_from_base64 s = octets (sextets s)"

subsection \<open>\<open>base64UrlDecode\<close>\<close>

text \<open>
  Lines 51 to 60 of the program. The padding loop \<open>while (base64.length % 4) base64 += "="\<close>
  is embedded as it is written: a run that does not end is the value \<open>None\<close>.
\<close>

partial_function (option) pad_loop :: "jsstring \<Rightarrow> jsstring option" where
  "pad_loop base64 =
     (if length base64 mod 4 \<noteq> 0 then pad_loop (base64 @ (lit ''='')) else Some base64)"

declare pad_loop.simps [code]

definition base64UrlDecode :: "jsstring \<Rightarrow> error + byte list" where
  "base64UrlDecode str =
     (let base64 = replaceAll (cu CHR ''_'') (cu CHR ''/'') (replaceAll (cu CHR ''-'') (cu CHR ''+'') str)
      in case pad_loop base64 of
           None \<Rightarrow> Inl NonTermination
         | Some padded \<Rightarrow> Inr (Buffer_from_base64 padded))"

subsection \<open>\<open>parseJWT\<close>\<close>

text \<open>
  Lines 74 to 89 of the program. The result is the object
  \<open>{ header, payload, signature, raw: parts }\<close>.
\<close>

record jwt =
  header :: jsval
  payload :: jsval
  signature :: jsstring
  raw :: "jsstring list"

definition parseJWT :: "env \<Rightarrow> jsstring \<Rightarrow> error + jwt" where
  "parseJWT E token =
     (let parts = split (cu CHR ''.'') token in
      if length parts \<noteq> 3 then Inl MalformedToken
      else
        case base64UrlDecode (parts ! 0) of Inl e \<Rightarrow> Inl e | Inr hb \<Rightarrow>
        (case JSON_parse E hb of None \<Rightarrow> Inl SyntaxError | Some h \<Rightarrow>
        (case base64UrlDecode (parts ! 1) of Inl e \<Rightarrow> Inl e | Inr pb \<Rightarrow>
        (case JSON_parse E pb of None \<Rightarrow> Inl SyntaxError | Some p \<Rightarrow>
        Inr \<lparr>header = h, payload = p, signature = parts ! 2, raw = parts\<rparr>))))"

subsection \<open>\<open>verifyJWT\<close>\<close>

text \<open>
  \<open>verifyJWT\<close> is lines 99 to 161 of the program. It writes its three checks on the
  claims inline (lines 103 to 122, \<open>VERIFICA 1\<close> to \<open>VERIFICA 3\<close> in its comments); here
  each check is a definition, and \<open>validateClaims\<close> is their sequence.
\<close>

definition checkExpiry :: "env \<Rightarrow> jsval \<Rightarrow> error + unit" where
  "checkExpiry E p =
     (case get_prop p (lit ''exp'') of Inl e \<Rightarrow> Inl e | Inr pexp \<Rightarrow>
      if \<not> truthy pexp then Inr ()
      else (case lt_number E pexp (of_int (now E)) of Inl e \<Rightarrow> Inl e | Inr expired \<Rightarrow>
            if expired then Inl ClaimExpired else Inr ()))"

definition checkAudience :: "jsval \<Rightarrow> error + unit" where
  "checkAudience p =
     (case get_prop p (lit ''aud'') of Inl e \<Rightarrow> Inl e | Inr aud \<Rightarrow>
      if \<not> strict_eq aud (JStr CLIENT_ID) then Inl ClaimAudienceMismatch else Inr ())"

definition checkIssuer :: "jsval \<Rightarrow> error + unit" where
  "checkIssuer p =
     (case get_prop p (lit ''iss'') of Inl e \<Rightarrow> Inl e | Inr iss \<Rightarrow>
      if \<not> strict_eq iss (JStr (lit ''https://accounts.google.com''))
         \<and> \<not> strict_eq iss (JStr (lit ''accounts.google.com''))
      then Inl ClaimIssuerMismatch else Inr ())"

definition validateClaims :: "env \<Rightarrow> jsval \<Rightarrow> error + unit" where
  "validateClaims E p =
     (case checkExpiry E p of Inl e \<Rightarrow> Inl e | Inr u \<Rightarrow>
      (case checkAudience p of Inl e \<Rightarrow> Inl e | Inr u \<Rightarrow>
       checkIssuer p))"

text \<open>
  Lines 126 to 132: \<open>keys.keys.find((k) => k.kid === header.kid)\<close> and the test of its
  result. \<open>find\<close> calls the function on each record in turn and returns the first record
  on which it is true, \<open>undefined\<close> when there is none.
\<close>

fun find_kid :: "jsval list \<Rightarrow> jsval \<Rightarrow> error + jsval" where
  "find_kid [] h = Inr JUndefined"
| "find_kid (k # ks) h =
     (case get_prop k (lit ''kid'') of Inl e \<Rightarrow> Inl e | Inr kk \<Rightarrow>
      (case get_prop h (lit ''kid'') of Inl e \<Rightarrow> Inl e | Inr hk \<Rightarrow>
       if strict_eq kk hk then Inr k else find_kid ks h))"

definition lookupKey :: "jsval option \<Rightarrow> jsval \<Rightarrow> error + jsval" where
  "lookupKey fetched h =
     (case fetched of None \<Rightarrow> Inl KeyFetchError | Some keys \<Rightarrow>
      (case get_prop keys (lit ''keys'') of Inl e \<Rightarrow> Inl e
       | Inr (JArr ks) \<Rightarrow>
           (case find_kid ks h of Inl e \<Rightarrow> Inl e | Inr key \<Rightarrow>
            if \<not> truthy key then Inl KeyNotFound else Inr key)
       | Inr other \<Rightarrow> Inl TypeError))"

text \<open>Lines 134 to 157: the signature over the first two raw segments.\<close>

definition verifySignature :: "env \<Rightarrow> jsval \<Rightarrow> jwt \<Rightarrow> event list \<times> (error + unit)" where
  "verifySignature E key t =
     (case base64UrlDecode (signature t) of Inl e \<Rightarrow> ([], Inl e) | Inr signatureBuffer \<Rightarrow>
      let dataToVerify = element (raw t) 0 @ lit ''.'' @ element (raw t) 1 in
      (case get_prop key (lit ''kty'') of Inl e \<Rightarrow> ([], Inl e) | Inr kty \<Rightarrow>
      (case get_prop key (lit ''n'') of Inl e \<Rightarrow> ([], Inl e) | Inr n \<Rightarrow>
      (case get_prop key (lit ''e'') of Inl e \<Rightarrow> ([], Inl e) | Inr e \<Rightarrow>
      (case createPublicKey E kty n e of None \<Rightarrow> ([], Inl CryptoError) | Some publicKey \<Rightarrow>
       let isValid = rsa_sha256_verify E publicKey dataToVerify signatureBuffer in
       ([VerifySignature publicKey dataToVerify signatureBuffer],
        if \<not> isValid then Inl InvalidSignature else Inr ()))))))"

text \<open>The body of \<open>verifyJWT\<close> after the call of \<open>parseJWT\<close>, and \<open>verifyJWT\<close>.\<close>

definition verifyParsed :: "env \<Rightarrow> jwt \<Rightarrow> event list \<times> (error + jsval)" where
  "verifyParsed E t =
     (case validateClaims E (payload t) of Inl e \<Rightarrow> ([], Inl e) | Inr u \<Rightarrow>
      (case lookupKey (fetchGooglePublicKeys E) (header t) of
         Inl e \<Rightarrow> ([FetchKeys], Inl e)
       | Inr key \<Rightarrow>
           (case verifySignature E key t of
              (evs, Inl e) \<Rightarrow> (FetchKeys # evs, Inl e)
            | (evs, Inr u) \<Rightarrow> (FetchKeys # evs, Inr (payload t)))))"

definition verifyJWT :: "env \<Rightarrow> jsstring \<Rightarrow> event list \<times> (error + jsval)" where
  "verifyJWT E token =
     (case parseJWT E token of Inl e \<Rightarrow> ([], Inl e) | Inr t \<Rightarrow> verifyParsed E t)"

subsection \<open>An example platform and example tokens\<close>

text \<open>
  The concrete runs of this theory use a platform whose clock reads 1700000000, whose key
  set has the one RSA record \<open>k1\<close>, and whose RSA primitive accepts the signature bytes
  \<open>sig\<close> (the segment \<open>c2ln\<close>) and no other. For each example there are the JSON text,
  the value that \<open>JSON.parse\<close> returns on it, and the segment that is the base64url form
  of the text. The JSON parser of the example platform is the table of these values.
\<close>

definition bytes :: "string \<Rightarrow> byte list" where
  "bytes s = map of_char s"

definition json_header_rs256 :: string where
  "json_header_rs256 =
     ''{\"alg\":\"RS256\",\"kid\":\"k1\"}''"

definition header_rs256 :: jsval where
  "header_rs256 =
     JObj [(lit ''alg'', JStr (lit ''RS256'')), (lit ''kid'', JStr (lit ''k1''))]"

definition seg_header_rs256 :: jsstring where
  "seg_header_rs256 =
     (lit ''eyJhbGciOiJSUzI1NiIsImtpZCI6ImsxIn0'')"

definition json_header_none :: string where
  "json_header_none =
     ''{\"alg\":\"none\",\"kid\":\"k1\"}''"

definition header_none :: jsval where
  "header_none =
     JObj [(lit ''alg'', JStr (lit ''none'')), (lit ''kid'', JStr (lit ''k1''))]"

definition seg_header_none :: jsstring where
  "seg_header_none =
     (lit ''eyJhbGciOiJub25lIiwia2lkIjoiazEifQ'')"

definition json_header_k9 :: string where
  "json_header_k9 =
     ''{\"alg\":\"RS256\",\"kid\":\"k9\"}''"

definition header_k9 :: jsval where
  "header_k9 =
     JObj [(lit ''alg'', JStr (lit ''RS256'')), (lit ''kid'', JStr (lit ''k9''))]"

definition seg_header_k9 :: jsstring where
  "seg_header_k9 =
     (lit ''eyJhbGciOiJSUzI1NiIsImtpZCI6Ims5In0'')"

definition json_payload_ok :: string where
  "json_payload_ok =
     ''{\"iss\":\"accounts.google.com\",\"aud\":\"48315565897-6i3403uof617avne'' @
     ''l62iu3jhcqo70u81.apps.googleusercontent.com\",\"exp\":2000000000}''"

definition payload_ok :: jsval where
  "payload_ok =
     JObj [(lit ''iss'', JStr (lit ''accounts.google.com'')), (lit ''aud'', JStr CLIENT_ID),
           (lit ''exp'', JNum 2000000000)]"

definition seg_payload_ok :: jsstring where
  "seg_payload_ok =
     (lit ''eyJpc3MiOiJhY2NvdW50cy5nb29nbGUuY29tIiwiYXVkIjoiNDgzMTU1NjU4OTct'') @
     (lit ''NmkzNDAzdW9mNjE3YXZuZWw2Mml1M2poY3FvNzB1ODEuYXBwcy5nb29nbGV1c2Vy'') @
     (lit ''Y29udGVudC5jb20iLCJleHAiOjIwMDAwMDAwMDB9'')"

definition json_payload_noexp :: string where
  "json_payload_noexp =
     ''{\"iss\":\"accounts.google.com\",\"aud\":\"48315565897-6i3403uof617avne'' @
     ''l62iu3jhcqo70u81.apps.googleusercontent.com\"}''"

definition payload_noexp :: jsval where
  "payload_noexp =
     JObj [(lit ''iss'', JStr (lit ''accounts.google.com'')), (lit ''aud'', JStr CLIENT_ID)]"

definition seg_payload_noexp :: jsstring where
  "seg_payload_noexp =
     (lit ''eyJpc3MiOiJhY2NvdW50cy5nb29nbGUuY29tIiwiYXVkIjoiNDgzMTU1NjU4OTct'') @
     (lit ''NmkzNDAzdW9mNjE3YXZuZWw2Mml1M2poY3FvNzB1ODEuYXBwcy5nb29nbGV1c2Vy'') @
     (lit ''Y29udGVudC5jb20ifQ'')"

definition json_payload_expired :: string where
  "json_payload_expired =
     ''{\"iss\":\"accounts.google.com\",\"aud\":\"48315565897-6i3403uof617avne'' @
     ''l62iu3jhcqo70u81.apps.googleusercontent.com\",\"exp\":1000}''"

definition payload_expired :: jsval where
  "payload_expired =
     JObj [(lit ''iss'', JStr (lit ''accounts.google.com'')), (lit ''aud'', JStr CLIENT_ID),
           (lit ''exp'', JNum 1000)]"

definition seg_payload_expired :: jsstring where
  "seg_payload_expired =
     (lit ''eyJpc3MiOiJhY2NvdW50cy5nb29nbGUuY29tIiwiYXVkIjoiNDgzMTU1NjU4OTct'') @
     (lit ''NmkzNDAzdW9mNjE3YXZuZWw2Mml1M2poY3FvNzB1ODEuYXBwcy5nb29nbGV1c2Vy'') @
     (lit ''Y29udGVudC5jb20iLCJleHAiOjEwMDB9'')"

definition json_payload_prefix :: string where
  "json_payload_prefix =
     ''{\"iss\":\"accounts.google.com\",\"aud\":\"48315565897\",\"exp\":200000000'' @
     ''0}''"

definition payload_prefix :: jsval where
  "payload_prefix =
     JObj [(lit ''iss'', JStr (lit ''accounts.google.com'')), (lit ''aud'', JStr (lit ''48315565897'')),
           (lit ''exp'', JNum 2000000000)]"

definition seg_payload_prefix :: jsstring where
  "seg_payload_prefix =
     (lit ''eyJpc3MiOiJhY2NvdW50cy5nb29nbGUuY29tIiwiYXVkIjoiNDgzMTU1NjU4OTci'') @
     (lit ''LCJleHAiOjIwMDAwMDAwMDB9'')"

definition json_payload_noaud :: string where
  "json_payload_noaud =
     ''{\"iss\":\"accounts.google.com\",\"exp\":2000000000}''"

definition payload_noaud :: jsval where
  "payload_noaud =
     JObj [(lit ''iss'', JStr (lit ''accounts.google.com'')), (lit ''exp'', JNum 2000000000)]"

definition seg_payload_noaud :: jsstring where
  "seg_payload_noaud =
     (lit ''eyJpc3MiOiJhY2NvdW50cy5nb29nbGUuY29tIiwiZXhwIjoyMDAwMDAwMDAwfQ'')"

definition json_payload_badiss :: string where
  "json_payload_badiss =
     ''{\"iss\":\"accounts.google.com.evil.example\",\"aud\":\"48315565897-6i3'' @
     ''403uof617avnel62iu3jhcqo70u81.apps.googleusercontent.com\",\"exp\":'' @
     ''2000000000}''"

definition payload_badiss :: jsval where
  "payload_badiss =
     JObj [(lit ''iss'', JStr (lit ''accounts.google.com.evil.example'')), (lit ''aud'', JStr CLIENT_ID),
           (lit ''exp'', JNum 2000000000)]"

definition seg_payload_badiss :: jsstring where
  "seg_payload_badiss =
     (lit ''eyJpc3MiOiJhY2NvdW50cy5nb29nbGUuY29tLmV2aWwuZXhhbXBsZSIsImF1ZCI6'') @
     (lit ''IjQ4MzE1NTY1ODk3LTZpMzQwM3VvZjYxN2F2bmVsNjJpdTNqaGNxbzcwdTgxLmFw'') @
     (lit ''cHMuZ29vZ2xldXNlcmNvbnRlbnQuY29tIiwiZXhwIjoyMDAwMDAwMDAwfQ'')"

definition ex_json :: "(byte list \<times> jsval) list" where
  "ex_json =
     [(bytes json_header_rs256, header_rs256),
      (bytes json_header_none, header_none),
      (bytes json_header_k9, header_k9),
      (bytes json_payload_ok, payload_ok),
      (bytes json_payload_noexp, payload_noexp),
      (bytes json_payload_expired, payload_expired),
      (bytes json_payload_prefix, payload_prefix),
      (bytes json_payload_noaud, payload_noaud),
      (bytes json_payload_badiss, payload_badiss)]"

definition ex_jwk :: jsval where
  "ex_jwk =
     JObj [(lit ''kid'', JStr (lit ''k1'')), (lit ''kty'', JStr (lit ''RSA'')), (lit ''n'', JStr (lit ''AQAB'')),
           (lit ''e'', JStr (lit ''AQAB''))]"

definition ex_keys :: jsval where
  "ex_keys = JObj [(lit ''keys'', JArr [ex_jwk])]"

definition ex_key :: pubkey where
  "ex_key = PublicKey (JStr (lit ''RSA'')) (JStr (lit ''AQAB'')) (JStr (lit ''AQAB''))"

definition ex_env :: env where
  "ex_env =
     \<lparr>now = 1700000000,
      JSON_parse = map_of ex_json,
      to_number = (\<lambda>v. NaN),
      fetchGooglePublicKeys = Some ex_keys,
      createPublicKey =
        (\<lambda>kty n e. if kty = JStr (lit ''RSA'') then Some (PublicKey kty n e) else None),
      rsa_sha256_verify = (\<lambda>k d s. s = bytes ''sig'')\<rparr>"

text \<open>The compact form of three segments.\<close>

definition token_of :: "jsstring \<Rightarrow> jsstring \<Rightarrow> jsstring \<Rightarrow> jsstring" where
  "token_of h p g = h @ lit ''.'' @ p @ lit ''.'' @ g"

section \<open>Properties of the model\<close>

subsection \<open>Literals\<close>

lemma unat_cu: "unat (cu c) = of_char c"
proof -
  have "cu c = of_nat (of_char c)" by (simp add: of_nat_of_char)
  then have "unat (cu c) = of_char c mod 2 ^ 16" by (simp add: unat_of_nat)
  moreover have "(of_char c :: nat) < 256" by simp
  ultimately show ?thesis by simp
qed

lemma cu_inject: "cu a = cu b \<longleftrightarrow> a = b"
proof
  assume "cu a = cu b"
  then have "unat (cu a) = unat (cu b)" by simp
  then show "a = b" by (simp add: unat_cu)
qed simp

lemma lit_inject [simp]: "lit a = lit b \<longleftrightarrow> a = b"
  unfolding lit_def by (rule inj_map_eq_map) (simp add: inj_def cu_inject)

lemma lit_Nil_iff [simp]: "lit s = [] \<longleftrightarrow> s = []"
  by (simp add: lit_def)

lemma length_lit [simp]: "length (lit s) = length s"
  by (simp add: lit_def)

lemma take_lit: "take n (lit s) = lit (take n s)"
  by (simp add: lit_def take_map)

lemma lit_Nil: "lit [] = []"
  by (simp add: lit_def)

lemma lit_Cons: "lit (c # s) = cu c # lit s"
  by (simp add: lit_def)

lemmas lit_simps = lit_Nil lit_Cons

subsection \<open>The padding loop ends\<close>

lemma pad_loop_done: "length b mod 4 = 0 \<Longrightarrow> pad_loop b = Some b"
  by (subst pad_loop.simps) simp

lemma pad_loop_step: "length b mod 4 \<noteq> 0 \<Longrightarrow> pad_loop b = pad_loop (b @ (lit ''=''))"
  by (subst pad_loop.simps) simp

lemma replicate_2: "replicate 2 c = [c, c]"
  by (simp add: numeral_2_eq_2)

lemma replicate_3: "replicate 3 c = [c, c, c]"
  by (simp add: numeral_3_eq_3)

lemma pad_loop_closed:
  "pad_loop b = Some (b @ replicate ((4 - length b mod 4) mod 4) (cu CHR ''=''))"
proof -
  consider (r0) "length b mod 4 = 0" | (r1) "length b mod 4 = 1"
    | (r2) "length b mod 4 = 2" | (r3) "length b mod 4 = 3"
    by arith
  then show ?thesis
  proof cases
    case r0
    then show ?thesis by (simp add: pad_loop_done)
  next
    case r3
    have z: "length (b @ (lit ''='')) mod 4 = 0" using r3 by (simp add: mod_Suc)
    have "pad_loop b = pad_loop (b @ (lit ''=''))" using r3 by (intro pad_loop_step) simp
    also have "\<dots> = Some (b @ (lit ''=''))" using z by (rule pad_loop_done)
    finally show ?thesis using r3 by (simp add: lit_simps)
  next
    case r2
    have a: "length (b @ (lit ''='')) mod 4 = 3" using r2 by (simp add: mod_Suc)
    have z: "length ((b @ (lit ''='')) @ (lit ''='')) mod 4 = 0" using r2 by (simp add: mod_Suc)
    have "pad_loop b = pad_loop (b @ (lit ''=''))" using r2 by (intro pad_loop_step) simp
    also have "\<dots> = pad_loop ((b @ (lit ''='')) @ (lit ''=''))" using a by (intro pad_loop_step) simp
    also have "\<dots> = Some ((b @ (lit ''='')) @ (lit ''=''))" using z by (rule pad_loop_done)
    finally show ?thesis using r2 by (simp add: replicate_2 lit_simps)
  next
    case r1
    have a: "length (b @ (lit ''='')) mod 4 = 2" using r1 by (simp add: mod_Suc)
    have c: "length ((b @ (lit ''='')) @ (lit ''='')) mod 4 = 3" using r1 by (simp add: mod_Suc)
    have z: "length (((b @ (lit ''='')) @ (lit ''='')) @ (lit ''='')) mod 4 = 0" using r1 by (simp add: mod_Suc)
    have "pad_loop b = pad_loop (b @ (lit ''=''))" using r1 by (intro pad_loop_step) simp
    also have "\<dots> = pad_loop ((b @ (lit ''='')) @ (lit ''=''))" using a by (intro pad_loop_step) simp
    also have "\<dots> = pad_loop (((b @ (lit ''='')) @ (lit ''='')) @ (lit ''=''))"
      using c by (intro pad_loop_step) simp
    also have "\<dots> = Some (((b @ (lit ''='')) @ (lit ''='')) @ (lit ''=''))" using z by (rule pad_loop_done)
    finally show ?thesis using r1 by (simp add: replicate_3 lit_simps)
  qed
qed

lemma padded_length: "length (b @ replicate ((4 - length b mod 4) mod 4) c) mod 4 = 0"
proof -
  have e: "(length b + k) mod 4 = (length b mod 4 + k) mod 4" for k
    by (simp add: mod_add_left_eq)
  consider (r0) "length b mod 4 = 0" | (r1) "length b mod 4 = 1"
    | (r2) "length b mod 4 = 2" | (r3) "length b mod 4 = 3"
    by arith
  then show ?thesis
  proof cases
    case r0
    then show ?thesis by simp
  next
    case r1
    then show ?thesis using e [of 3] by simp
  next
    case r2
    then show ?thesis using e [of 2] by simp
  next
    case r3
    then show ?thesis using e [of 1] by simp
  qed
qed

lemma base64UrlDecode_returns:
  "base64UrlDecode str =
     Inr (Buffer_from_base64
       (let b = replaceAll (cu CHR ''_'') (cu CHR ''/'') (replaceAll (cu CHR ''-'') (cu CHR ''+'') str)
        in b @ replicate ((4 - length b mod 4) mod 4) (cu CHR ''='')))"
  by (simp add: base64UrlDecode_def pad_loop_closed Let_def)

subsection \<open>Splitting on a separator\<close>

lemma split_from_not_Nil: "split_from sep cur s \<noteq> []"
  by (induction s arbitrary: cur) auto

lemma split_from_free:
  "sep \<notin> set cur \<Longrightarrow> x \<in> set (split_from sep cur s) \<Longrightarrow> sep \<notin> set x"
proof (induction s arbitrary: cur)
  case Nil
  then show ?case by simp
next
  case (Cons c s)
  show ?case
  proof (cases "c = sep")
    case True
    with Cons.prems have "x = cur \<or> x \<in> set (split_from sep [] s)" by simp
    then show ?thesis using Cons.prems(1) Cons.IH [of "[]"] by auto
  next
    case False
    with Cons.prems have "x \<in> set (split_from sep (cur @ [c]) s)" by simp
    moreover have "sep \<notin> set (cur @ [c])" using False Cons.prems(1) by simp
    ultimately show ?thesis using Cons.IH [of "cur @ [c]"] by blast
  qed
qed

lemma split_from_no_sep: "sep \<notin> set s \<Longrightarrow> split_from sep cur s = [cur @ s]"
  by (induction s arbitrary: cur) auto

lemma split_from_at_sep:
  "sep \<notin> set a \<Longrightarrow> split_from sep cur (a @ sep # s) = (cur @ a) # split_from sep [] s"
  by (induction a arbitrary: cur) auto

lemma split_from_Cons:
  "split_from sep cur s = x # xs \<Longrightarrow>
     (xs = [] \<and> x = cur @ s) \<or>
     (\<exists>s1 s2. s = s1 @ sep # s2 \<and> x = cur @ s1 \<and> xs = split_from sep [] s2)"
proof (induction s arbitrary: cur)
  case Nil
  then show ?case by simp
next
  case (Cons c s)
  show ?case
  proof (cases "c = sep")
    case True
    with Cons.prems have "x = cur" and "xs = split_from sep [] s" by simp_all
    then have "c # s = [] @ sep # s \<and> x = cur @ [] \<and> xs = split_from sep [] s"
      using True by simp
    then show ?thesis by blast
  next
    case False
    with Cons.prems have "split_from sep (cur @ [c]) s = x # xs" by simp
    from Cons.IH [OF this] show ?thesis
    proof
      assume "xs = [] \<and> x = (cur @ [c]) @ s"
      then show ?thesis by simp
    next
      assume "\<exists>s1 s2. s = s1 @ sep # s2 \<and> x = (cur @ [c]) @ s1 \<and> xs = split_from sep [] s2"
      then obtain s1 s2 where "s = s1 @ sep # s2" "x = (cur @ [c]) @ s1"
        "xs = split_from sep [] s2" by blast
      then have "c # s = (c # s1) @ sep # s2 \<and> x = cur @ (c # s1) \<and> xs = split_from sep [] s2"
        by simp
      then show ?thesis by blast
    qed
  qed
qed

lemma split_three:
  assumes "split sep s = [a, b, c]"
  shows "s = a @ sep # b @ sep # c"
proof -
  from assms have 1: "split_from sep [] s = a # [b, c]" by (simp add: split_def)
  from split_from_Cons [OF 1] obtain s2 where s: "s = a @ sep # s2"
    and 2: "split_from sep [] s2 = b # [c]" by auto
  from split_from_Cons [OF 2] obtain s3 where s2: "s2 = b @ sep # s3"
    and 3: "split_from sep [] s3 = c # []" by auto
  have "[] \<noteq> split_from sep [] s4" for s4
    using split_from_not_Nil [of sep "[]" s4] by simp
  with split_from_Cons [OF 3] have "s3 = c" by auto
  with s s2 show ?thesis by simp
qed

lemma split_free: "x \<in> set (split sep s) \<Longrightarrow> sep \<notin> set x"
  using split_from_free [of sep "[]" x s] by (simp add: split_def)

lemma split_segments:
  "sep \<notin> set a \<Longrightarrow> sep \<notin> set b \<Longrightarrow> sep \<notin> set c \<Longrightarrow>
   split sep (a @ sep # b @ sep # c) = [a, b, c]"
  by (simp add: split_def split_from_at_sep split_from_no_sep)

subsection \<open>Values\<close>

lemma strict_eq_JStr: "strict_eq a (JStr s) = (a = JStr s)"
  by (cases a) auto

lemma get_prop_defined: "get_prop p k = Inr v \<Longrightarrow> \<exists>w. get_prop p k' = Inr w"
  by (cases p) auto

subsection \<open>The stages\<close>

lemma parseJWT_malformed:
  "length (split (cu CHR ''.'') token) \<noteq> 3 \<Longrightarrow> parseJWT E token = Inl MalformedToken"
  by (simp add: parseJWT_def Let_def)

lemma parseJWT_Inr:
  "parseJWT E token = Inr t \<Longrightarrow>
     raw t = split (cu CHR ''.'') token \<and> length (raw t) = 3 \<and> signature t = raw t ! 2"
  by (auto simp: parseJWT_def Let_def split: if_splits sum.splits option.splits)

lemma parseJWT_segments:
  assumes "parseJWT E token = Inr t"
  shows "\<exists>h p g. raw t = [h, p, g] \<and> signature t = g
           \<and> token = h @ lit ''.'' @ p @ lit ''.'' @ g
           \<and> cu CHR ''.'' \<notin> set h \<and> cu CHR ''.'' \<notin> set p \<and> cu CHR ''.'' \<notin> set g"
proof -
  from parseJWT_Inr [OF assms] have r: "raw t = split (cu CHR ''.'') token"
    and l: "length (raw t) = 3" and g: "signature t = raw t ! 2" by blast+
  from l obtain h p g' where hpg: "raw t = [h, p, g']"
    by (cases "raw t" rule: list.exhaust; cases "tl (raw t)"; cases "tl (tl (raw t))") auto
  with r have sp: "split (cu CHR ''.'') token = [h, p, g']" by simp
  from split_three [OF sp] have tok: "token = h @ lit ''.'' @ p @ lit ''.'' @ g'"
    by (simp add: lit_simps)
  have free: "cu CHR ''.'' \<notin> set h" "cu CHR ''.'' \<notin> set p" "cu CHR ''.'' \<notin> set g'"
    using split_free [of _ "cu CHR ''.''" token] sp by simp_all
  from hpg g tok free show ?thesis by simp
qed

lemma parseJWT_compact:
  assumes "cu CHR ''.'' \<notin> set a" "cu CHR ''.'' \<notin> set b" "cu CHR ''.'' \<notin> set c"
    and "base64UrlDecode a = Inr ha" "JSON_parse E ha = Some h"
    and "base64UrlDecode b = Inr pb" "JSON_parse E pb = Some p"
  shows "parseJWT E (token_of a b c) = Inr \<lparr>header = h, payload = p, signature = c, raw = [a, b, c]\<rparr>"
proof -
  have "split (cu CHR ''.'') (token_of a b c) = [a, b, c]"
    using assms(1-3) split_segments [of "cu CHR ''.''" a b c] by (simp add: token_of_def lit_simps)
  then show ?thesis using assms(4-7) by (simp add: parseJWT_def)
qed

lemma checkExpiry_defined: "checkExpiry E p = Inr () \<Longrightarrow> \<exists>w. get_prop p k = Inr w"
  by (cases p) (auto simp: checkExpiry_def)

lemma checkAudience_iff:
  "checkAudience p = Inr () \<longleftrightarrow> get_prop p (lit ''aud'') = Inr (JStr CLIENT_ID)"
  by (auto simp: checkAudience_def strict_eq_JStr split: sum.splits)

lemma checkAudience_mismatch:
  "get_prop p (lit ''aud'') = Inr a \<Longrightarrow> a \<noteq> JStr CLIENT_ID \<Longrightarrow>
   checkAudience p = Inl ClaimAudienceMismatch"
  by (simp add: checkAudience_def strict_eq_JStr)

lemma checkIssuer_iff:
  "checkIssuer p = Inr () \<longleftrightarrow>
     get_prop p (lit ''iss'') = Inr (JStr (lit ''https://accounts.google.com'')) \<or>
     get_prop p (lit ''iss'') = Inr (JStr (lit ''accounts.google.com''))"
  by (auto simp: checkIssuer_def strict_eq_JStr split: sum.splits)

lemma checkIssuer_mismatch:
  "get_prop p (lit ''iss'') = Inr i \<Longrightarrow> i \<noteq> JStr (lit ''https://accounts.google.com'') \<Longrightarrow>
   i \<noteq> JStr (lit ''accounts.google.com'') \<Longrightarrow> checkIssuer p = Inl ClaimIssuerMismatch"
  by (simp add: checkIssuer_def strict_eq_JStr)

lemma verifyJWT_parsed: "parseJWT E token = Inr t \<Longrightarrow> verifyJWT E token = verifyParsed E t"
  by (simp add: verifyJWT_def)

lemma verifyParsed_claims:
  "validateClaims E (payload t) = Inl e \<Longrightarrow> verifyParsed E t = ([], Inl e)"
  by (simp add: verifyParsed_def)

lemma find_kid_none:
  "\<forall>k \<in> set ks. \<exists>kk hk. get_prop k (lit ''kid'') = Inr kk \<and> get_prop h (lit ''kid'') = Inr hk
      \<and> \<not> strict_eq kk hk \<Longrightarrow> find_kid ks h = Inr JUndefined"
  by (induction ks) auto

lemma find_kid_header:
  "get_prop h' (lit ''kid'') = get_prop h (lit ''kid'') \<Longrightarrow> find_kid ks h' = find_kid ks h"
  by (induction ks) (auto split: sum.splits)

lemma verifySignature_events:
  "VerifySignature K d s \<in> set (fst (verifySignature E key t)) \<Longrightarrow>
     d = element (raw t) 0 @ lit ''.'' @ element (raw t) 1
     \<and> base64UrlDecode (signature t) = Inr s
     \<and> verifySignature E key t =
         ([VerifySignature K d s],
          if rsa_sha256_verify E K d s then Inr () else Inl InvalidSignature)"
  by (auto simp: verifySignature_def Let_def split: sum.splits option.splits if_splits)

lemma verifyParsed_events:
  assumes "VerifySignature K d s \<in> set (fst (verifyParsed E t))"
  shows "d = element (raw t) 0 @ lit ''.'' @ element (raw t) 1
     \<and> base64UrlDecode (signature t) = Inr s
     \<and> verifyParsed E t =
         ([FetchKeys, VerifySignature K d s],
          if rsa_sha256_verify E K d s then Inr (payload t) else Inl InvalidSignature)"
proof -
  from assms obtain key where k: "lookupKey (fetchGooglePublicKeys E) (header t) = Inr key"
    and v: "validateClaims E (payload t) = Inr ()"
    and m: "VerifySignature K d s \<in> set (fst (verifySignature E key t))"
    by (auto simp: verifyParsed_def split: sum.splits prod.splits)
  from verifySignature_events [OF m] show ?thesis
    using k v by (simp add: verifyParsed_def)
qed

lemma lt_number_errors: "lt_number E v n = Inl e \<Longrightarrow> e = TypeError"
  by (cases v) (auto split: option.splits conversion.splits)

lemma validateClaims_errors:
  "validateClaims E p = Inl e \<Longrightarrow>
     e \<in> {ClaimExpired, ClaimAudienceMismatch, ClaimIssuerMismatch, TypeError}"
  by (cases p)
     (auto simp: validateClaims_def checkExpiry_def checkAudience_def checkIssuer_def
           split: sum.splits if_splits dest: lt_number_errors)

lemma find_kid_errors: "find_kid ks h = Inl e \<Longrightarrow> e = TypeError"
proof (induction ks)
  case Nil
  then show ?case by simp
next
  case (Cons k ks)
  have a: "get_prop v n = Inl x \<Longrightarrow> x = TypeError" for v n x
    by (cases v) auto
  from Cons show ?case by (auto split: sum.splits if_splits dest: a)
qed

lemma lookupKey_errors:
  "lookupKey f h = Inl e \<Longrightarrow> e \<in> {KeyFetchError, TypeError, KeyNotFound}"
proof -
  have a: "get_prop v n = Inl x \<Longrightarrow> x = TypeError" for v n x
    by (cases v) auto
  assume "lookupKey f h = Inl e"
  then show ?thesis
    by (auto simp: lookupKey_def split: option.splits sum.splits jsval.splits if_splits
             dest: a find_kid_errors)
qed

lemma verifySignature_errors:
  "snd (verifySignature E key t) = Inl e \<Longrightarrow> e \<in> {TypeError, CryptoError, InvalidSignature}"
proof -
  have a: "get_prop v n = Inl x \<Longrightarrow> x = TypeError" for v n x
    by (cases v) auto
  assume "snd (verifySignature E key t) = Inl e"
  then show ?thesis
    by (auto simp: verifySignature_def base64UrlDecode_returns Let_def
             split: option.splits sum.splits if_splits dest: a)
qed

lemma parseJWT_errors: "parseJWT E token = Inl e \<Longrightarrow> e \<in> {MalformedToken, SyntaxError}"
  by (auto simp: parseJWT_def base64UrlDecode_returns Let_def
           split: if_splits option.splits sum.splits)

lemma verifySignature_header:
  "verifySignature E key (t\<lparr>header := h\<rparr>) = verifySignature E key t"
  by (simp add: verifySignature_def split: sum.splits)

lemma verifyParsed_errors:
  assumes "snd (verifyParsed E t) = Inl e"
  shows "e \<in> {ClaimExpired, ClaimAudienceMismatch, ClaimIssuerMismatch, TypeError,
               KeyFetchError, KeyNotFound, CryptoError, InvalidSignature}"
proof (cases "validateClaims E (payload t)")
  case (Inl x)
  with assms validateClaims_errors [of E "payload t" x] show ?thesis
    by (auto simp: verifyParsed_def)
next
  case v: (Inr u)
  show ?thesis
  proof (cases "lookupKey (fetchGooglePublicKeys E) (header t)")
    case (Inl x)
    with assms v lookupKey_errors [of "fetchGooglePublicKeys E" "header t" x] show ?thesis
      by (auto simp: verifyParsed_def)
  next
    case (Inr key)
    with assms v have "snd (verifySignature E key t) = Inl e"
      by (auto simp: verifyParsed_def split: prod.splits sum.splits)
    from verifySignature_errors [OF this] show ?thesis by auto
  qed
qed

lemma verifyJWT_errors:
  assumes "snd (verifyJWT E token) = Inl e"
  shows "e \<in> {MalformedToken, SyntaxError, ClaimExpired, ClaimAudienceMismatch,
               ClaimIssuerMismatch, TypeError, KeyFetchError, KeyNotFound, CryptoError,
               InvalidSignature}"
proof (cases "parseJWT E token")
  case (Inl x)
  with assms parseJWT_errors [of E token x] show ?thesis by (auto simp: verifyJWT_def)
next
  case (Inr t)
  with assms have "snd (verifyParsed E t) = Inl e" by (simp add: verifyJWT_def)
  from verifyParsed_errors [OF this] show ?thesis by auto
qed

lemma lookupKey_header:
  "get_prop h' (lit ''kid'') = get_prop h (lit ''kid'') \<Longrightarrow> lookupKey f h' = lookupKey f h"
  using find_kid_header [of h' h]
  by (simp add: lookupKey_def split: option.splits sum.splits jsval.splits)

lemma verifyParsed_header:
  assumes "get_prop h (lit ''kid'') = get_prop (header t) (lit ''kid'')"
  shows "verifyParsed E (t\<lparr>header := h\<rparr>) = verifyParsed E t"
proof -
  have l: "lookupKey (fetchGooglePublicKeys E) h = lookupKey (fetchGooglePublicKeys E) (header t)"
    using assms by (rule lookupKey_header)
  show ?thesis
  proof (cases "validateClaims E (payload t)")
    case (Inl e)
    then show ?thesis by (simp add: verifyParsed_def)
  next
    case v: (Inr u)
    show ?thesis
    proof (cases "lookupKey (fetchGooglePublicKeys E) (header t)")
      case (Inl e)
      with v l show ?thesis by (simp add: verifyParsed_def)
    next
      case (Inr key)
      with v l show ?thesis by (simp add: verifyParsed_def verifySignature_header)
    qed
  qed
qed

subsection \<open>The example tokens decode and parse\<close>

lemmas decode_simps = base64UrlDecode_def pad_loop.simps replaceAll_def Buffer_from_base64_def
  unbase64_def in_range_def low_byte_def bytes_def lit_simps

lemma decode_header_rs256: "base64UrlDecode seg_header_rs256 = Inr (bytes json_header_rs256)"
  by (simp add: seg_header_rs256_def json_header_rs256_def decode_simps)

lemma decode_header_none: "base64UrlDecode seg_header_none = Inr (bytes json_header_none)"
  by (simp add: seg_header_none_def json_header_none_def decode_simps)

lemma decode_header_k9: "base64UrlDecode seg_header_k9 = Inr (bytes json_header_k9)"
  by (simp add: seg_header_k9_def json_header_k9_def decode_simps)

lemma decode_payload_ok: "base64UrlDecode seg_payload_ok = Inr (bytes json_payload_ok)"
  by (simp add: seg_payload_ok_def json_payload_ok_def decode_simps)

lemma decode_payload_noexp: "base64UrlDecode seg_payload_noexp = Inr (bytes json_payload_noexp)"
  by (simp add: seg_payload_noexp_def json_payload_noexp_def decode_simps)

lemma decode_payload_expired: "base64UrlDecode seg_payload_expired = Inr (bytes json_payload_expired)"
  by (simp add: seg_payload_expired_def json_payload_expired_def decode_simps)

lemma decode_payload_prefix: "base64UrlDecode seg_payload_prefix = Inr (bytes json_payload_prefix)"
  by (simp add: seg_payload_prefix_def json_payload_prefix_def decode_simps)

lemma decode_payload_noaud: "base64UrlDecode seg_payload_noaud = Inr (bytes json_payload_noaud)"
  by (simp add: seg_payload_noaud_def json_payload_noaud_def decode_simps)

lemma decode_payload_badiss: "base64UrlDecode seg_payload_badiss = Inr (bytes json_payload_badiss)"
  by (simp add: seg_payload_badiss_def json_payload_badiss_def decode_simps)

lemma parse_header_rs256: "JSON_parse ex_env (bytes json_header_rs256) = Some header_rs256"
  by (simp add: ex_env_def ex_json_def bytes_def json_header_rs256_def json_header_none_def json_header_k9_def json_payload_ok_def json_payload_noexp_def json_payload_expired_def json_payload_prefix_def json_payload_noaud_def json_payload_badiss_def)

lemma parse_header_none: "JSON_parse ex_env (bytes json_header_none) = Some header_none"
  by (simp add: ex_env_def ex_json_def bytes_def json_header_rs256_def json_header_none_def json_header_k9_def json_payload_ok_def json_payload_noexp_def json_payload_expired_def json_payload_prefix_def json_payload_noaud_def json_payload_badiss_def)

lemma parse_header_k9: "JSON_parse ex_env (bytes json_header_k9) = Some header_k9"
  by (simp add: ex_env_def ex_json_def bytes_def json_header_rs256_def json_header_none_def json_header_k9_def json_payload_ok_def json_payload_noexp_def json_payload_expired_def json_payload_prefix_def json_payload_noaud_def json_payload_badiss_def)

lemma parse_payload_ok: "JSON_parse ex_env (bytes json_payload_ok) = Some payload_ok"
  by (simp add: ex_env_def ex_json_def bytes_def json_header_rs256_def json_header_none_def json_header_k9_def json_payload_ok_def json_payload_noexp_def json_payload_expired_def json_payload_prefix_def json_payload_noaud_def json_payload_badiss_def)

lemma parse_payload_noexp: "JSON_parse ex_env (bytes json_payload_noexp) = Some payload_noexp"
  by (simp add: ex_env_def ex_json_def bytes_def json_header_rs256_def json_header_none_def json_header_k9_def json_payload_ok_def json_payload_noexp_def json_payload_expired_def json_payload_prefix_def json_payload_noaud_def json_payload_badiss_def)

lemma parse_payload_expired: "JSON_parse ex_env (bytes json_payload_expired) = Some payload_expired"
  by (simp add: ex_env_def ex_json_def bytes_def json_header_rs256_def json_header_none_def json_header_k9_def json_payload_ok_def json_payload_noexp_def json_payload_expired_def json_payload_prefix_def json_payload_noaud_def json_payload_badiss_def)

lemma parse_payload_prefix: "JSON_parse ex_env (bytes json_payload_prefix) = Some payload_prefix"
  by (simp add: ex_env_def ex_json_def bytes_def json_header_rs256_def json_header_none_def json_header_k9_def json_payload_ok_def json_payload_noexp_def json_payload_expired_def json_payload_prefix_def json_payload_noaud_def json_payload_badiss_def)

lemma parse_payload_noaud: "JSON_parse ex_env (bytes json_payload_noaud) = Some payload_noaud"
  by (simp add: ex_env_def ex_json_def bytes_def json_header_rs256_def json_header_none_def json_header_k9_def json_payload_ok_def json_payload_noexp_def json_payload_expired_def json_payload_prefix_def json_payload_noaud_def json_payload_badiss_def)

lemma parse_payload_badiss: "JSON_parse ex_env (bytes json_payload_badiss) = Some payload_badiss"
  by (simp add: ex_env_def ex_json_def bytes_def json_header_rs256_def json_header_none_def json_header_k9_def json_payload_ok_def json_payload_noexp_def json_payload_expired_def json_payload_prefix_def json_payload_noaud_def json_payload_badiss_def)

lemma dots_header_rs256: "cu CHR ''.'' \<notin> set seg_header_rs256"
  by (simp add: seg_header_rs256_def lit_simps)

lemma dots_header_none: "cu CHR ''.'' \<notin> set seg_header_none"
  by (simp add: seg_header_none_def lit_simps)

lemma dots_header_k9: "cu CHR ''.'' \<notin> set seg_header_k9"
  by (simp add: seg_header_k9_def lit_simps)

lemma dots_payload_ok: "cu CHR ''.'' \<notin> set seg_payload_ok"
  by (simp add: seg_payload_ok_def lit_simps)

lemma dots_payload_noexp: "cu CHR ''.'' \<notin> set seg_payload_noexp"
  by (simp add: seg_payload_noexp_def lit_simps)

lemma dots_payload_expired: "cu CHR ''.'' \<notin> set seg_payload_expired"
  by (simp add: seg_payload_expired_def lit_simps)

lemma dots_payload_prefix: "cu CHR ''.'' \<notin> set seg_payload_prefix"
  by (simp add: seg_payload_prefix_def lit_simps)

lemma dots_payload_noaud: "cu CHR ''.'' \<notin> set seg_payload_noaud"
  by (simp add: seg_payload_noaud_def lit_simps)

lemma dots_payload_badiss: "cu CHR ''.'' \<notin> set seg_payload_badiss"
  by (simp add: seg_payload_badiss_def lit_simps)

subsection \<open>The example runs\<close>

lemma decode_sig: "base64UrlDecode (lit ''c2ln'') = Inr (bytes ''sig'')"
  by (simp add: decode_simps)

lemma decode_empty: "base64UrlDecode [] = Inr []"
  by (simp add: decode_simps)

lemmas run_simps = verifyParsed_def validateClaims_def checkExpiry_def checkAudience_def
  checkIssuer_def lookupKey_def verifySignature_def element_def ex_env_def ex_keys_def
  ex_jwk_def ex_key_def decode_sig decode_empty

lemma parse_token:
  assumes "cu CHR ''.'' \<notin> set a" "cu CHR ''.'' \<notin> set b" "cu CHR ''.'' \<notin> set c"
    and "base64UrlDecode a = Inr (bytes ja)" "JSON_parse ex_env (bytes ja) = Some h"
    and "base64UrlDecode b = Inr (bytes jb)" "JSON_parse ex_env (bytes jb) = Some p"
  shows "parseJWT ex_env (token_of a b c) =
           Inr \<lparr>header = h, payload = p, signature = c, raw = [a, b, c]\<rparr>"
  using assms by (rule parseJWT_compact)

lemma run_ok:
  "verifyParsed ex_env \<lparr>header = header_rs256, payload = payload_ok, signature = lit ''c2ln'',
       raw = [seg_header_rs256, seg_payload_ok, lit ''c2ln'']\<rparr> =
     ([FetchKeys, VerifySignature ex_key (seg_header_rs256 @ lit ''.'' @ seg_payload_ok)
         (bytes ''sig'')], Inr payload_ok)"
  by (simp add: run_simps header_rs256_def payload_ok_def)

lemma run_noexp:
  "verifyParsed ex_env \<lparr>header = header_rs256, payload = payload_noexp, signature = lit ''c2ln'',
       raw = [seg_header_rs256, seg_payload_noexp, lit ''c2ln'']\<rparr> =
     ([FetchKeys, VerifySignature ex_key (seg_header_rs256 @ lit ''.'' @ seg_payload_noexp)
         (bytes ''sig'')], Inr payload_noexp)"
  by (simp add: run_simps header_rs256_def payload_noexp_def)

lemma run_none:
  "verifyParsed ex_env \<lparr>header = header_none, payload = payload_ok, signature = [],
       raw = [seg_header_none, seg_payload_ok, []]\<rparr> =
     ([FetchKeys, VerifySignature ex_key (seg_header_none @ lit ''.'' @ seg_payload_ok) []],
      Inl InvalidSignature)"
  by (simp add: run_simps header_none_def payload_ok_def bytes_def)

section \<open>The claims\<close>

subsection \<open>The codec\<close>

text \<open>
  Claim C9. \<open>base64UrlDecode\<close> is total: for every input string, the empty string and
  strings with characters outside the base64url alphabet included, the padding loop ends
  and the call returns a byte sequence; it never throws.
\<close>

theorem base64UrlDecode_total: "\<exists>bs. base64UrlDecode str = Inr bs"
  by (simp add: base64UrlDecode_returns)

text \<open>
  Claim C8, as stated: an input with characters outside the extended base64 alphabet makes
  the decode operation fail with \<open>MalformedEncoding\<close>. The program does not: the four
  characters \<open>$$$$\<close> are outside the alphabet, and the call returns the empty byte
  sequence. Nor does it on four code units \<open>0x141\<close>, which are outside the alphabet too:
  the decoder reads their low byte \<open>0x41\<close>, the letter \<open>A\<close>, and the call returns three
  zero bytes.
\<close>

theorem decode_foreign_characters_counterexample:
  "unbase64 (low_byte (cu CHR ''$'')) = None
   \<and> base64UrlDecode (lit ''$$$$'') = Inr []
   \<and> base64UrlDecode [0x141, 0x141, 0x141, 0x141] = Inr [0, 0, 0]"
  by (simp add: decode_simps)

text \<open>
  Claim C8, amended. For every input string the padding loop ends with a string whose
  length is a multiple of 4, and the decode operation returns the bytes that
  \<open>Buffer.from\<close>, the lenient decoder of the platform, reads from that string, also when
  the input has characters outside the extended base64 alphabet. It never fails with
  \<open>MalformedEncoding\<close>.
\<close>

theorem decode_never_malformed:
  "\<exists>p. pad_loop (replaceAll (cu CHR ''_'') (cu CHR ''/'')
              (replaceAll (cu CHR ''-'') (cu CHR ''+'') str)) = Some p
       \<and> length p mod 4 = 0
       \<and> base64UrlDecode str = Inr (Buffer_from_base64 p)
       \<and> base64UrlDecode str \<noteq> Inl MalformedEncoding"
proof -
  let ?b = "replaceAll (cu CHR ''_'') (cu CHR ''/'') (replaceAll (cu CHR ''-'') (cu CHR ''+'') str)"
  let ?p = "?b @ replicate ((4 - length ?b mod 4) mod 4) (cu CHR ''='')"
  have 1: "pad_loop ?b = Some ?p" by (rule pad_loop_closed)
  have 2: "length ?p mod 4 = 0" by (rule padded_length)
  have 3: "base64UrlDecode str = Inr (Buffer_from_base64 ?p)"
    by (simp add: base64UrlDecode_returns Let_def)
  have "pad_loop ?b = Some ?p \<and> length ?p mod 4 = 0
      \<and> base64UrlDecode str = Inr (Buffer_from_base64 ?p)
      \<and> base64UrlDecode str \<noteq> Inl MalformedEncoding"
    using 1 2 3 by simp
  then show ?thesis by (rule exI)
qed

subsection \<open>The structure of the token\<close>

text \<open>
  Claim C5. For every input string that does not split on \<open>.\<close> into exactly three
  segments, verification fails with \<open>MalformedToken\<close> ("Invalid JWT format"), and it
  has no effect before it fails: the key set is not read from the network.
\<close>

theorem malformed_token_before_network:
  "length (split (cu CHR ''.'') token) \<noteq> 3 \<Longrightarrow> verifyJWT E token = ([], Inl MalformedToken)"
  by (simp add: verifyJWT_def parseJWT_malformed)

text \<open>
  The token of two segments, a header and a payload with no signature segment, on the
  example platform.
\<close>

theorem malformed_token_before_network_witness:
  "length (split (cu CHR ''.'') (seg_header_rs256 @ lit ''.'' @ seg_payload_ok)) \<noteq> 3
   \<and> verifyJWT ex_env (seg_header_rs256 @ lit ''.'' @ seg_payload_ok) = ([], Inl MalformedToken)"
proof -
  have "split (cu CHR ''.'') (seg_header_rs256 @ lit ''.'' @ seg_payload_ok)
          = [seg_header_rs256, seg_payload_ok]"
    using dots_header_rs256 dots_payload_ok
    by (simp add: split_def split_from_at_sep split_from_no_sep lit_simps)
  then have h: "length (split (cu CHR ''.'') (seg_header_rs256 @ lit ''.'' @ seg_payload_ok)) \<noteq> 3"
    by simp
  show ?thesis
    using h malformed_token_before_network [OF h, of ex_env] by simp
qed

lemma verification_input:
  assumes "VerifySignature K d s \<in> set (fst (verifyJWT E token))"
  shows "\<exists>t h p g. parseJWT E token = Inr t \<and> raw t = [h, p, g]
           \<and> token = h @ lit ''.'' @ p @ lit ''.'' @ g
           \<and> cu CHR ''.'' \<notin> set h \<and> cu CHR ''.'' \<notin> set p \<and> cu CHR ''.'' \<notin> set g
           \<and> d = h @ lit ''.'' @ p
           \<and> base64UrlDecode g = Inr s
           \<and> verifyJWT E token =
                ([FetchKeys, VerifySignature K d s],
                 if rsa_sha256_verify E K d s then Inr (payload t) else Inl InvalidSignature)"
proof -
  from assms obtain t where t: "parseJWT E token = Inr t"
    by (cases "parseJWT E token") (auto simp: verifyJWT_def)
  then have v: "verifyJWT E token = verifyParsed E t" by (rule verifyJWT_parsed)
  from parseJWT_segments [OF t] obtain h p g where hpg: "raw t = [h, p, g]"
    and g: "signature t = g" and tok: "token = h @ lit ''.'' @ p @ lit ''.'' @ g"
    and free: "cu CHR ''.'' \<notin> set h" "cu CHR ''.'' \<notin> set p" "cu CHR ''.'' \<notin> set g"
    by blast
  from assms v have "VerifySignature K d s \<in> set (fst (verifyParsed E t))" by simp
  from verifyParsed_events [OF this] hpg g
  have "d = h @ lit ''.'' @ p" and "base64UrlDecode g = Inr s"
    and "verifyParsed E t =
           ([FetchKeys, VerifySignature K d s],
            if rsa_sha256_verify E K d s then Inr (payload t) else Inl InvalidSignature)"
    by (simp_all add: element_def)
  with t hpg tok free v show ?thesis by auto
qed

lemma verification_runs:
  assumes "parseJWT E token = Inr t" and "validateClaims E (payload t) = Inr ()"
    and "lookupKey (fetchGooglePublicKeys E) (header t) = Inr key"
    and "get_prop key (lit ''kty'') = Inr kty" and "get_prop key (lit ''n'') = Inr n"
    and "get_prop key (lit ''e'') = Inr e" and "createPublicKey E kty n e = Some K"
  shows "\<exists>h p g s. token = h @ lit ''.'' @ p @ lit ''.'' @ g
           \<and> cu CHR ''.'' \<notin> set h \<and> cu CHR ''.'' \<notin> set p \<and> cu CHR ''.'' \<notin> set g
           \<and> base64UrlDecode g = Inr s
           \<and> verifyJWT E token =
                ([FetchKeys, VerifySignature K (h @ lit ''.'' @ p) s],
                 if rsa_sha256_verify E K (h @ lit ''.'' @ p) s then Inr (payload t)
                 else Inl InvalidSignature)"
proof -
  from parseJWT_segments [OF assms(1)] obtain h p g where hpg: "raw t = [h, p, g]"
    and g: "signature t = g" and tok: "token = h @ lit ''.'' @ p @ lit ''.'' @ g"
    and free: "cu CHR ''.'' \<notin> set h" "cu CHR ''.'' \<notin> set p" "cu CHR ''.'' \<notin> set g"
    by blast
  obtain s where s: "base64UrlDecode g = Inr s" by (simp add: base64UrlDecode_returns)
  have "verifySignature E key t =
      ([VerifySignature K (h @ lit ''.'' @ p) s],
       if rsa_sha256_verify E K (h @ lit ''.'' @ p) s then Inr () else Inl InvalidSignature)"
    using assms(4-7) hpg g s by (simp add: verifySignature_def element_def)
  with assms(2,3) have "verifyParsed E t =
      ([FetchKeys, VerifySignature K (h @ lit ''.'' @ p) s],
       if rsa_sha256_verify E K (h @ lit ''.'' @ p) s then Inr (payload t)
       else Inl InvalidSignature)"
    by (simp add: verifyParsed_def)
  with tok free s verifyJWT_parsed [OF assms(1)] show ?thesis by auto
qed

lemma verifySignature_accepts:
  "snd (verifySignature E key t) = Inr () \<Longrightarrow>
     \<exists>K d s. fst (verifySignature E key t) = [VerifySignature K d s]"
  by (auto simp: verifySignature_def Let_def split: sum.splits option.splits if_splits)

lemma verifyParsed_accepts:
  assumes "snd (verifyParsed E t) = Inr v"
  shows "\<exists>K d s. VerifySignature K d s \<in> set (fst (verifyParsed E t))"
proof (cases "validateClaims E (payload t)")
  case (Inl e)
  with assms show ?thesis by (simp add: verifyParsed_def)
next
  case c: (Inr u)
  show ?thesis
  proof (cases "lookupKey (fetchGooglePublicKeys E) (header t)")
    case (Inl e)
    with assms c show ?thesis by (simp add: verifyParsed_def)
  next
    case k: (Inr key)
    obtain evs r where vs: "verifySignature E key t = (evs, r)" by (cases "verifySignature E key t")
    with assms c k have "r = Inr ()" by (cases r) (simp_all add: verifyParsed_def)
    with vs have "snd (verifySignature E key t) = Inr ()" by simp
    from verifySignature_accepts [OF this] vs obtain K d s where "evs = [VerifySignature K d s]"
      by auto
    with c k vs \<open>r = Inr ()\<close> have "fst (verifyParsed E t) = [FetchKeys, VerifySignature K d s]"
      by (simp add: verifyParsed_def)
    then have "VerifySignature K d s \<in> set (fst (verifyParsed E t))" by simp
    then show ?thesis by blast
  qed
qed

lemma acceptance_verified:
  assumes "snd (verifyJWT E token) = Inr v"
  shows "\<exists>K h p g s. token = h @ lit ''.'' @ p @ lit ''.'' @ g
           \<and> base64UrlDecode g = Inr s
           \<and> fst (verifyJWT E token) = [FetchKeys, VerifySignature K (h @ lit ''.'' @ p) s]
           \<and> rsa_sha256_verify E K (h @ lit ''.'' @ p) s"
proof -
  from assms obtain t where t: "parseJWT E token = Inr t"
    by (cases "parseJWT E token") (auto simp: verifyJWT_def)
  then have v: "verifyJWT E token = verifyParsed E t" by (rule verifyJWT_parsed)
  with assms have "snd (verifyParsed E t) = Inr v" by simp
  from verifyParsed_accepts [OF this] obtain K d s
    where "VerifySignature K d s \<in> set (fst (verifyParsed E t))" by blast
  with v have e: "VerifySignature K d s \<in> set (fst (verifyJWT E token))" by simp
  from verification_input [OF e] obtain t' :: jwt and h p g where tok: "token = h @ lit ''.'' @ p @ lit ''.'' @ g"
    and d: "d = h @ lit ''.'' @ p" and g: "base64UrlDecode g = Inr s"
    and r: "verifyJWT E token =
       ([FetchKeys, VerifySignature K d s],
        if rsa_sha256_verify E K d s then Inr (payload t') else Inl InvalidSignature)"
    by (elim exE conjE) (rule that, assumption+)
  have ok: "rsa_sha256_verify E K d s"
  proof (rule ccontr)
    assume "\<not> rsa_sha256_verify E K d s"
    with r have "snd (verifyJWT E token) = Inl InvalidSignature" by simp
    with assms show False by simp
  qed
  from r have f: "fst (verifyJWT E token) = [FetchKeys, VerifySignature K d s]" by simp
  from tok g f ok d have "token = h @ lit ''.'' @ p @ lit ''.'' @ g
           \<and> base64UrlDecode g = Inr s
           \<and> fst (verifyJWT E token) = [FetchKeys, VerifySignature K (h @ lit ''.'' @ p) s]
           \<and> rsa_sha256_verify E K (h @ lit ''.'' @ p) s"
    by simp
  then show ?thesis by (intro exI)
qed

text \<open>
  Claim C7. For every three-segment token, the signing input handed to the RSA-SHA256
  verification is the first two raw segments joined by \<open>.\<close>, as they stand in the input
  token and not rebuilt from the decoded JSON. First, whenever a verification runs on data
  \<open>d\<close> and signature bytes \<open>s\<close>, the token is \<open>d\<close>, a dot and a third segment without
  dots, \<open>s\<close> is the decoding of that third segment, the verification is the only one of
  the run, and its result alone decides between the payload and \<open>InvalidSignature\<close>.
  Second, the verification does run: for every token that parses, whose claims are valid
  and whose key is found and accepted by \<open>crypto.createPublicKey\<close>, the run reads the key
  set and verifies the signature over exactly the first two segments of the token. Third,
  a token is accepted only after such a verification has succeeded.
\<close>

theorem signing_input_verbatim:
  "(VerifySignature K d s \<in> set (fst (verifyJWT E token)) \<longrightarrow>
      (\<exists>t h p g. parseJWT E token = Inr t \<and> raw t = [h, p, g]
           \<and> token = h @ lit ''.'' @ p @ lit ''.'' @ g
           \<and> cu CHR ''.'' \<notin> set h \<and> cu CHR ''.'' \<notin> set p \<and> cu CHR ''.'' \<notin> set g
           \<and> d = h @ lit ''.'' @ p
           \<and> base64UrlDecode g = Inr s
           \<and> verifyJWT E token =
                ([FetchKeys, VerifySignature K d s],
                 if rsa_sha256_verify E K d s then Inr (payload t) else Inl InvalidSignature)))
   \<and> (parseJWT E token = Inr t' \<and> validateClaims E (payload t') = Inr ()
        \<and> lookupKey (fetchGooglePublicKeys E) (header t') = Inr key
        \<and> get_prop key (lit ''kty'') = Inr kty \<and> get_prop key (lit ''n'') = Inr n
        \<and> get_prop key (lit ''e'') = Inr e \<and> createPublicKey E kty n e = Some K' \<longrightarrow>
      (\<exists>h p g s'. token = h @ lit ''.'' @ p @ lit ''.'' @ g
           \<and> cu CHR ''.'' \<notin> set h \<and> cu CHR ''.'' \<notin> set p \<and> cu CHR ''.'' \<notin> set g
           \<and> base64UrlDecode g = Inr s'
           \<and> verifyJWT E token =
                ([FetchKeys, VerifySignature K' (h @ lit ''.'' @ p) s'],
                 if rsa_sha256_verify E K' (h @ lit ''.'' @ p) s' then Inr (payload t')
                 else Inl InvalidSignature)))
   \<and> (snd (verifyJWT E token) = Inr v \<longrightarrow>
      (\<exists>K'' h p g s''. token = h @ lit ''.'' @ p @ lit ''.'' @ g
           \<and> base64UrlDecode g = Inr s''
           \<and> fst (verifyJWT E token) = [FetchKeys, VerifySignature K'' (h @ lit ''.'' @ p) s'']
           \<and> rsa_sha256_verify E K'' (h @ lit ''.'' @ p) s''))"
proof (intro conjI impI)
  assume "VerifySignature K d s \<in> set (fst (verifyJWT E token))"
  then show "\<exists>t h p g. parseJWT E token = Inr t \<and> raw t = [h, p, g]
           \<and> token = h @ lit ''.'' @ p @ lit ''.'' @ g
           \<and> cu CHR ''.'' \<notin> set h \<and> cu CHR ''.'' \<notin> set p \<and> cu CHR ''.'' \<notin> set g
           \<and> d = h @ lit ''.'' @ p
           \<and> base64UrlDecode g = Inr s
           \<and> verifyJWT E token =
                ([FetchKeys, VerifySignature K d s],
                 if rsa_sha256_verify E K d s then Inr (payload t) else Inl InvalidSignature)"
    by (rule verification_input)
next
  assume "parseJWT E token = Inr t' \<and> validateClaims E (payload t') = Inr ()
        \<and> lookupKey (fetchGooglePublicKeys E) (header t') = Inr key
        \<and> get_prop key (lit ''kty'') = Inr kty \<and> get_prop key (lit ''n'') = Inr n
        \<and> get_prop key (lit ''e'') = Inr e \<and> createPublicKey E kty n e = Some K'"
  then show "\<exists>h p g s'. token = h @ lit ''.'' @ p @ lit ''.'' @ g
           \<and> cu CHR ''.'' \<notin> set h \<and> cu CHR ''.'' \<notin> set p \<and> cu CHR ''.'' \<notin> set g
           \<and> base64UrlDecode g = Inr s'
           \<and> verifyJWT E token =
                ([FetchKeys, VerifySignature K' (h @ lit ''.'' @ p) s'],
                 if rsa_sha256_verify E K' (h @ lit ''.'' @ p) s' then Inr (payload t')
                 else Inl InvalidSignature)"
    by (elim conjE) (rule verification_runs)
next
  assume "snd (verifyJWT E token) = Inr v"
  then show "\<exists>K'' h p g s''. token = h @ lit ''.'' @ p @ lit ''.'' @ g
           \<and> base64UrlDecode g = Inr s''
           \<and> fst (verifyJWT E token) = [FetchKeys, VerifySignature K'' (h @ lit ''.'' @ p) s'']
           \<and> rsa_sha256_verify E K'' (h @ lit ''.'' @ p) s''"
    by (rule acceptance_verified)
qed

text \<open>
  The well-formed example token: its signing input is its first two segments, the
  verification runs on it, and the token is accepted after it.
\<close>

theorem signing_input_verbatim_witness:
  "VerifySignature ex_key (seg_header_rs256 @ lit ''.'' @ seg_payload_ok) (bytes ''sig'')
     \<in> set (fst (verifyJWT ex_env (token_of seg_header_rs256 seg_payload_ok (lit ''c2ln''))))
   \<and> (\<exists>t h p g. parseJWT ex_env (token_of seg_header_rs256 seg_payload_ok (lit ''c2ln'')) = Inr t
         \<and> raw t = [h, p, g]
         \<and> token_of seg_header_rs256 seg_payload_ok (lit ''c2ln'') = h @ lit ''.'' @ p @ lit ''.'' @ g
         \<and> cu CHR ''.'' \<notin> set h \<and> cu CHR ''.'' \<notin> set p \<and> cu CHR ''.'' \<notin> set g
         \<and> seg_header_rs256 @ lit ''.'' @ seg_payload_ok = h @ lit ''.'' @ p
         \<and> base64UrlDecode g = Inr (bytes ''sig'')
         \<and> verifyJWT ex_env (token_of seg_header_rs256 seg_payload_ok (lit ''c2ln'')) =
              ([FetchKeys, VerifySignature ex_key (seg_header_rs256 @ lit ''.'' @ seg_payload_ok)
                  (bytes ''sig'')],
               if rsa_sha256_verify ex_env ex_key (seg_header_rs256 @ lit ''.'' @ seg_payload_ok)
                    (bytes ''sig'')
               then Inr (payload t) else Inl InvalidSignature))
   \<and> parseJWT ex_env (token_of seg_header_rs256 seg_payload_ok (lit ''c2ln'')) =
        Inr \<lparr>header = header_rs256, payload = payload_ok, signature = lit ''c2ln'',
             raw = [seg_header_rs256, seg_payload_ok, lit ''c2ln'']\<rparr>
   \<and> validateClaims ex_env payload_ok = Inr ()
   \<and> lookupKey (fetchGooglePublicKeys ex_env) header_rs256 = Inr ex_jwk
   \<and> get_prop ex_jwk (lit ''kty'') = Inr (JStr (lit ''RSA''))
   \<and> get_prop ex_jwk (lit ''n'') = Inr (JStr (lit ''AQAB''))
   \<and> get_prop ex_jwk (lit ''e'') = Inr (JStr (lit ''AQAB''))
   \<and> createPublicKey ex_env (JStr (lit ''RSA'')) (JStr (lit ''AQAB'')) (JStr (lit ''AQAB''))
        = Some ex_key
   \<and> (\<exists>h p g s'. token_of seg_header_rs256 seg_payload_ok (lit ''c2ln'')
             = h @ lit ''.'' @ p @ lit ''.'' @ g
         \<and> cu CHR ''.'' \<notin> set h \<and> cu CHR ''.'' \<notin> set p \<and> cu CHR ''.'' \<notin> set g
         \<and> base64UrlDecode g = Inr s'
         \<and> verifyJWT ex_env (token_of seg_header_rs256 seg_payload_ok (lit ''c2ln'')) =
              ([FetchKeys, VerifySignature ex_key (h @ lit ''.'' @ p) s'],
               if rsa_sha256_verify ex_env ex_key (h @ lit ''.'' @ p) s' then Inr payload_ok
               else Inl InvalidSignature))
   \<and> snd (verifyJWT ex_env (token_of seg_header_rs256 seg_payload_ok (lit ''c2ln'')))
        = Inr payload_ok
   \<and> (\<exists>K'' h p g s''. token_of seg_header_rs256 seg_payload_ok (lit ''c2ln'')
             = h @ lit ''.'' @ p @ lit ''.'' @ g
         \<and> base64UrlDecode g = Inr s''
         \<and> fst (verifyJWT ex_env (token_of seg_header_rs256 seg_payload_ok (lit ''c2ln'')))
             = [FetchKeys, VerifySignature K'' (h @ lit ''.'' @ p) s'']
         \<and> rsa_sha256_verify ex_env K'' (h @ lit ''.'' @ p) s'')"
proof -
  let ?tok = "token_of seg_header_rs256 seg_payload_ok (lit ''c2ln'')"
  let ?t = "\<lparr>header = header_rs256, payload = payload_ok, signature = lit ''c2ln'',
           raw = [seg_header_rs256, seg_payload_ok, lit ''c2ln'']\<rparr>"
  let ?d = "seg_header_rs256 @ lit ''.'' @ seg_payload_ok"
  have p: "parseJWT ex_env ?tok = Inr ?t"
    by (rule parse_token [OF dots_header_rs256 dots_payload_ok _ decode_header_rs256
          parse_header_rs256 decode_payload_ok parse_payload_ok]) (simp add: lit_simps)
  have r: "verifyJWT ex_env ?tok =
      ([FetchKeys, VerifySignature ex_key ?d (bytes ''sig'')], Inr payload_ok)"
    by (simp add: verifyJWT_parsed [OF p] run_ok)
  have h1: "VerifySignature ex_key ?d (bytes ''sig'') \<in> set (fst (verifyJWT ex_env ?tok))"
    by (simp add: r)
  have v: "validateClaims ex_env payload_ok = Inr ()"
    by (simp add: run_simps payload_ok_def)
  have l: "lookupKey (fetchGooglePublicKeys ex_env) header_rs256 = Inr ex_jwk"
    by (simp add: run_simps header_rs256_def)
  have k: "get_prop ex_jwk (lit ''kty'') = Inr (JStr (lit ''RSA''))"
    "get_prop ex_jwk (lit ''n'') = Inr (JStr (lit ''AQAB''))"
    "get_prop ex_jwk (lit ''e'') = Inr (JStr (lit ''AQAB''))"
    by (simp_all add: ex_jwk_def)
  have c: "createPublicKey ex_env (JStr (lit ''RSA'')) (JStr (lit ''AQAB'')) (JStr (lit ''AQAB''))
        = Some ex_key"
    by (simp add: ex_env_def ex_key_def)
  have h3: "snd (verifyJWT ex_env ?tok) = Inr payload_ok" by (simp add: r)
  note T = signing_input_verbatim [of ex_key ?d "bytes ''sig''" ex_env ?tok ?t ex_jwk
      "JStr (lit ''RSA'')" "JStr (lit ''AQAB'')" "JStr (lit ''AQAB'')" ex_key payload_ok]
  have v': "validateClaims ex_env (payload ?t) = Inr ()" using v by simp
  have l': "lookupKey (fetchGooglePublicKeys ex_env) (header ?t) = Inr ex_jwk" using l by simp
  from T h1 have c1: "\<exists>t h p g. parseJWT ex_env ?tok = Inr t
         \<and> raw t = [h, p, g]
         \<and> ?tok = h @ lit ''.'' @ p @ lit ''.'' @ g
         \<and> cu CHR ''.'' \<notin> set h \<and> cu CHR ''.'' \<notin> set p \<and> cu CHR ''.'' \<notin> set g
         \<and> ?d = h @ lit ''.'' @ p
         \<and> base64UrlDecode g = Inr (bytes ''sig'')
         \<and> verifyJWT ex_env ?tok =
              ([FetchKeys, VerifySignature ex_key ?d (bytes ''sig'')],
               if rsa_sha256_verify ex_env ex_key ?d (bytes ''sig'')
               then Inr (payload t) else Inl InvalidSignature)"
    by blast
  from T p v' l' k c have "\<exists>h p g s'. ?tok = h @ lit ''.'' @ p @ lit ''.'' @ g
         \<and> cu CHR ''.'' \<notin> set h \<and> cu CHR ''.'' \<notin> set p \<and> cu CHR ''.'' \<notin> set g
         \<and> base64UrlDecode g = Inr s'
         \<and> verifyJWT ex_env ?tok =
              ([FetchKeys, VerifySignature ex_key (h @ lit ''.'' @ p) s'],
               if rsa_sha256_verify ex_env ex_key (h @ lit ''.'' @ p) s' then Inr (payload ?t)
               else Inl InvalidSignature)"
    by blast
  then have c2: "\<exists>h p g s'. ?tok = h @ lit ''.'' @ p @ lit ''.'' @ g
         \<and> cu CHR ''.'' \<notin> set h \<and> cu CHR ''.'' \<notin> set p \<and> cu CHR ''.'' \<notin> set g
         \<and> base64UrlDecode g = Inr s'
         \<and> verifyJWT ex_env ?tok =
              ([FetchKeys, VerifySignature ex_key (h @ lit ''.'' @ p) s'],
               if rsa_sha256_verify ex_env ex_key (h @ lit ''.'' @ p) s' then Inr payload_ok
               else Inl InvalidSignature)"
    by (simp only: jwt.select_convs)
  from T h3 have c3: "\<exists>K'' h p g s''. ?tok = h @ lit ''.'' @ p @ lit ''.'' @ g
         \<and> base64UrlDecode g = Inr s''
         \<and> fst (verifyJWT ex_env ?tok) = [FetchKeys, VerifySignature K'' (h @ lit ''.'' @ p) s'']
         \<and> rsa_sha256_verify ex_env K'' (h @ lit ''.'' @ p) s''"
    by blast
  from h1 c1 p v l k c c2 h3 c3 show ?thesis by (intro conjI)
qed

subsection \<open>The claims of the payload\<close>

lemma checkExpiry_number:
  "get_prop p (lit ''exp'') = Inr (JNum x) \<Longrightarrow>
     checkExpiry E p = (if x \<noteq> 0 \<and> x < of_int (now E) then Inl ClaimExpired else Inr ())"
  by (simp add: checkExpiry_def)

lemma checkExpiry_missing: "get_prop p (lit ''exp'') = Inr JUndefined \<Longrightarrow> checkExpiry E p = Inr ()"
  by (simp add: checkExpiry_def)

lemma verifyJWT_claims:
  "parseJWT E token = Inr t \<Longrightarrow> validateClaims E (payload t) = Inl e \<Longrightarrow>
     verifyJWT E token = ([], Inl e)"
  by (simp add: verifyJWT_parsed verifyParsed_claims)

text \<open>
  Claim C1, as stated: a payload with no \<open>exp\<close> field is rejected. The program accepts
  it: the payload \<open>{"iss": "accounts.google.com", "aud": CLIENT_ID}\<close> has no \<open>exp\<close>, passes
  the three checks, and a token that carries it under a valid signature is verified.
\<close>

theorem missing_exp_counterexample:
  "get_prop payload_noexp (lit ''exp'') = Inr JUndefined
   \<and> validateClaims ex_env payload_noexp = Inr ()
   \<and> verifyJWT ex_env (token_of seg_header_rs256 seg_payload_noexp (lit ''c2ln'')) =
       ([FetchKeys, VerifySignature ex_key (seg_header_rs256 @ lit ''.'' @ seg_payload_noexp)
           (bytes ''sig'')], Inr payload_noexp)"
proof -
  have p: "parseJWT ex_env (token_of seg_header_rs256 seg_payload_noexp (lit ''c2ln'')) =
      Inr \<lparr>header = header_rs256, payload = payload_noexp, signature = lit ''c2ln'',
           raw = [seg_header_rs256, seg_payload_noexp, lit ''c2ln'']\<rparr>"
    by (rule parse_token [OF dots_header_rs256 dots_payload_noexp _ decode_header_rs256
          parse_header_rs256 decode_payload_noexp parse_payload_noexp]) (simp add: lit_simps)
  have "get_prop payload_noexp (lit ''exp'') = Inr JUndefined"
    by (simp add: payload_noexp_def)
  moreover have "validateClaims ex_env payload_noexp = Inr ()"
    by (simp add: run_simps payload_noexp_def)
  ultimately show ?thesis by (simp add: verifyJWT_parsed [OF p] run_noexp)
qed

text \<open>
  Claim C1, amended. For every payload whose \<open>exp\<close> is a number other than zero and less
  than the current time, claim validation fails with \<open>ClaimExpired\<close>, and so does the
  verification of every token that carries the payload, with no effect and whatever the
  signature is. A payload whose \<open>exp\<close> is a number not less than the current time passes
  the expiry check, and so does a payload with no \<open>exp\<close> field: the program treats it as
  a token that does not expire.
\<close>

theorem expiry_check:
  "(get_prop p (lit ''exp'') = Inr (JNum x) \<and> x \<noteq> 0 \<and> x < of_int (now E)
      \<longrightarrow> validateClaims E p = Inl ClaimExpired)
   \<and> (parseJWT E token = Inr t \<and> get_prop (payload t) (lit ''exp'') = Inr (JNum x) \<and> x \<noteq> 0
        \<and> x < of_int (now E)
      \<longrightarrow> verifyJWT E token = ([], Inl ClaimExpired))
   \<and> (get_prop p (lit ''exp'') = Inr (JNum x) \<and> of_int (now E) \<le> x \<longrightarrow> checkExpiry E p = Inr ())
   \<and> (get_prop p (lit ''exp'') = Inr JUndefined \<longrightarrow> checkExpiry E p = Inr ())"
proof (intro conjI impI)
  assume "get_prop p (lit ''exp'') = Inr (JNum x) \<and> x \<noteq> 0 \<and> x < of_int (now E)"
  then show "validateClaims E p = Inl ClaimExpired"
    by (simp add: validateClaims_def checkExpiry_number)
next
  assume a: "parseJWT E token = Inr t \<and> get_prop (payload t) (lit ''exp'') = Inr (JNum x) \<and> x \<noteq> 0
      \<and> x < of_int (now E)"
  then have "validateClaims E (payload t) = Inl ClaimExpired"
    by (simp add: validateClaims_def checkExpiry_number)
  with a show "verifyJWT E token = ([], Inl ClaimExpired)"
    by (simp add: verifyJWT_claims)
next
  assume "get_prop p (lit ''exp'') = Inr (JNum x) \<and> of_int (now E) \<le> x"
  then show "checkExpiry E p = Inr ()" by (simp add: checkExpiry_number)
next
  assume "get_prop p (lit ''exp'') = Inr JUndefined"
  then show "checkExpiry E p = Inr ()" by (rule checkExpiry_missing)
qed

text \<open>
  On the example platform: the token whose \<open>exp\<close> is 1000 is expired, the payload whose
  \<open>exp\<close> is 2000000000 and the payload with no \<open>exp\<close> pass the expiry check.
\<close>

theorem expiry_check_witness:
  "parseJWT ex_env (token_of seg_header_rs256 seg_payload_expired (lit ''c2ln'')) =
      Inr \<lparr>header = header_rs256, payload = payload_expired, signature = lit ''c2ln'',
           raw = [seg_header_rs256, seg_payload_expired, lit ''c2ln'']\<rparr>
   \<and> get_prop payload_expired (lit ''exp'') = Inr (JNum 1000)
   \<and> (1000 :: rat) \<noteq> 0 \<and> (1000 :: rat) < of_int (now ex_env)
   \<and> validateClaims ex_env payload_expired = Inl ClaimExpired
   \<and> verifyJWT ex_env (token_of seg_header_rs256 seg_payload_expired (lit ''c2ln'')) =
        ([], Inl ClaimExpired)
   \<and> get_prop payload_ok (lit ''exp'') = Inr (JNum 2000000000)
   \<and> of_int (now ex_env) \<le> (2000000000 :: rat)
   \<and> checkExpiry ex_env payload_ok = Inr ()
   \<and> get_prop payload_noexp (lit ''exp'') = Inr JUndefined
   \<and> checkExpiry ex_env payload_noexp = Inr ()"
proof -
  let ?t = "\<lparr>header = header_rs256, payload = payload_expired, signature = lit ''c2ln'',
           raw = [seg_header_rs256, seg_payload_expired, lit ''c2ln'']\<rparr>"
  have p: "parseJWT ex_env (token_of seg_header_rs256 seg_payload_expired (lit ''c2ln'')) = Inr ?t"
    by (rule parse_token [OF dots_header_rs256 dots_payload_expired _ decode_header_rs256
          parse_header_rs256 decode_payload_expired parse_payload_expired]) (simp add: lit_simps)
  have e: "get_prop payload_expired (lit ''exp'') = Inr (JNum 1000)"
    by (simp add: payload_expired_def)
  have n: "(1000 :: rat) \<noteq> 0 \<and> (1000 :: rat) < of_int (now ex_env)"
    by (simp add: ex_env_def)
  have o: "get_prop payload_ok (lit ''exp'') = Inr (JNum 2000000000)"
    by (simp add: payload_ok_def)
  have m: "of_int (now ex_env) \<le> (2000000000 :: rat)"
    by (simp add: ex_env_def)
  have u: "get_prop payload_noexp (lit ''exp'') = Inr JUndefined"
    by (simp add: payload_noexp_def)
  have 1: "validateClaims ex_env payload_expired = Inl ClaimExpired"
    using expiry_check [of payload_expired 1000 ex_env] e n by simp
  have 2: "verifyJWT ex_env (token_of seg_header_rs256 seg_payload_expired (lit ''c2ln'')) =
        ([], Inl ClaimExpired)"
    using expiry_check [of _ 1000 ex_env "token_of seg_header_rs256 seg_payload_expired (lit ''c2ln'')" ?t]
      p e n by simp
  have 3: "checkExpiry ex_env payload_ok = Inr ()"
    using expiry_check [of payload_ok 2000000000 ex_env] o m by simp
  have 4: "checkExpiry ex_env payload_noexp = Inr ()"
    using expiry_check [of payload_noexp _ ex_env] u by simp
  from p e n 1 2 o m 3 u 4 show ?thesis by simp
qed

lemma audience_stops:
  assumes "parseJWT E token = Inr t" and "checkExpiry E (payload t) = Inr ()"
    and "get_prop (payload t) (lit ''aud'') \<noteq> Inr (JStr CLIENT_ID)"
  shows "verifyJWT E token = ([], Inl ClaimAudienceMismatch)"
proof -
  from checkExpiry_defined [OF assms(2)] obtain a where a: "get_prop (payload t) (lit ''aud'') = Inr a"
    by blast
  with assms(3) have "a \<noteq> JStr CLIENT_ID" by simp
  with a have "checkAudience (payload t) = Inl ClaimAudienceMismatch"
    by (rule checkAudience_mismatch)
  with assms(2) have "validateClaims E (payload t) = Inl ClaimAudienceMismatch"
    by (simp add: validateClaims_def)
  with assms(1) show ?thesis by (rule verifyJWT_claims)
qed

lemma audience_never_accepted:
  assumes "parseJWT E token = Inr t"
    and "get_prop (payload t) (lit ''aud'') \<noteq> Inr (JStr CLIENT_ID)"
  shows "\<exists>e. verifyJWT E token = ([], Inl e)"
proof (cases "checkExpiry E (payload t)")
  case (Inl e)
  then have "validateClaims E (payload t) = Inl e" by (simp add: validateClaims_def)
  with assms(1) have "verifyJWT E token = ([], Inl e)" by (rule verifyJWT_claims)
  then show ?thesis by blast
next
  case (Inr u)
  with audience_stops [OF assms(1) _ assms(2)] show ?thesis by simp
qed

text \<open>
  Claim C3. The audience check passes only when \<open>aud\<close> is the string \<open>CLIENT_ID\<close>
  itself: the comparison is the strict equality of the language, so a prefix, a substring
  or a value of another type does not pass. Every token whose \<open>aud\<close> differs is rejected
  before the key set is read and before any signature is verified, hence whatever its issuer
  and its signature are; the error is \<open>ClaimAudienceMismatch\<close> for every token that passes
  the expiry check, which the program runs first.
\<close>

theorem audience_exact_match:
  "(checkAudience p = Inr () \<longleftrightarrow> get_prop p (lit ''aud'') = Inr (JStr CLIENT_ID))
   \<and> (get_prop p (lit ''aud'') = Inr a \<and> a \<noteq> JStr CLIENT_ID
        \<longrightarrow> checkAudience p = Inl ClaimAudienceMismatch)
   \<and> (parseJWT E token = Inr t \<and> checkExpiry E (payload t) = Inr ()
        \<and> get_prop (payload t) (lit ''aud'') \<noteq> Inr (JStr CLIENT_ID)
        \<longrightarrow> verifyJWT E token = ([], Inl ClaimAudienceMismatch))
   \<and> (parseJWT E token = Inr t \<and> get_prop (payload t) (lit ''aud'') \<noteq> Inr (JStr CLIENT_ID)
        \<longrightarrow> (\<exists>e. verifyJWT E token = ([], Inl e)))"
  using checkAudience_iff [of p] checkAudience_mismatch [of p a]
    audience_stops [of E token t] audience_never_accepted [of E token t]
  by blast

text \<open>
  The example token whose \<open>aud\<close> is \<open>48315565897\<close>, the first eleven characters of
  \<open>CLIENT_ID\<close>, with an accepted issuer and a valid signature.
\<close>

theorem audience_exact_match_witness:
  "take 11 CLIENT_ID = lit ''48315565897''
   \<and> parseJWT ex_env (token_of seg_header_rs256 seg_payload_prefix (lit ''c2ln'')) =
      Inr \<lparr>header = header_rs256, payload = payload_prefix, signature = lit ''c2ln'',
           raw = [seg_header_rs256, seg_payload_prefix, lit ''c2ln'']\<rparr>
   \<and> checkExpiry ex_env payload_prefix = Inr ()
   \<and> get_prop payload_prefix (lit ''aud'') = Inr (JStr (lit ''48315565897''))
   \<and> JStr (lit ''48315565897'') \<noteq> JStr CLIENT_ID
   \<and> checkIssuer payload_prefix = Inr ()
   \<and> checkAudience payload_prefix = Inl ClaimAudienceMismatch
   \<and> verifyJWT ex_env (token_of seg_header_rs256 seg_payload_prefix (lit ''c2ln'')) =
        ([], Inl ClaimAudienceMismatch)
   \<and> (\<exists>e. verifyJWT ex_env (token_of seg_header_rs256 seg_payload_prefix (lit ''c2ln'')) =
        ([], Inl e))
   \<and> get_prop payload_ok (lit ''aud'') = Inr (JStr CLIENT_ID)
   \<and> checkAudience payload_ok = Inr ()"
proof -
  let ?tok = "token_of seg_header_rs256 seg_payload_prefix (lit ''c2ln'')"
  let ?t = "\<lparr>header = header_rs256, payload = payload_prefix, signature = lit ''c2ln'',
           raw = [seg_header_rs256, seg_payload_prefix, lit ''c2ln'']\<rparr>"
  have p: "parseJWT ex_env ?tok = Inr ?t"
    by (rule parse_token [OF dots_header_rs256 dots_payload_prefix _ decode_header_rs256
          parse_header_rs256 decode_payload_prefix parse_payload_prefix]) (simp add: lit_simps)
  have x: "checkExpiry ex_env payload_prefix = Inr ()"
    by (simp add: run_simps payload_prefix_def)
  have a: "get_prop payload_prefix (lit ''aud'') = Inr (JStr (lit ''48315565897''))"
    by (simp add: payload_prefix_def)
  have d: "JStr (lit ''48315565897'') \<noteq> JStr CLIENT_ID"
    by (simp add: CLIENT_ID_def)
  have i: "checkIssuer payload_prefix = Inr ()"
    by (simp add: run_simps payload_prefix_def)
  have k: "take 11 CLIENT_ID = lit ''48315565897''"
    by (simp add: CLIENT_ID_def take_lit)
  have o: "get_prop payload_ok (lit ''aud'') = Inr (JStr CLIENT_ID)"
    by (simp add: payload_ok_def)
  have 1: "checkAudience payload_prefix = Inl ClaimAudienceMismatch"
    using audience_exact_match [of payload_prefix "JStr (lit ''48315565897'')"] a d by simp
  have 2: "verifyJWT ex_env ?tok = ([], Inl ClaimAudienceMismatch)"
    using audience_exact_match [of _ _ ex_env ?tok ?t] p x a d by simp
  have 3: "checkAudience payload_ok = Inr ()"
    using audience_exact_match [of payload_ok] o by simp
  have 4: "\<exists>e. verifyJWT ex_env ?tok = ([], Inl e)"
    using audience_exact_match [of _ _ ex_env ?tok ?t] p a d by simp
  from k p x a d i 1 2 o 3 4 show ?thesis by simp
qed

text \<open>
  Claim C10. A payload with no \<open>aud\<close> field never satisfies the audience check: the
  missing value is \<open>undefined\<close>, which is not strictly equal to the client identifier, so
  the check fails with \<open>ClaimAudienceMismatch\<close>, and so does the verification of every
  token that carries such a payload and reaches the check, that is, passes the expiry
  check before it.
\<close>

theorem missing_audience_rejected:
  "\<not> strict_eq JUndefined (JStr CLIENT_ID)
   \<and> (get_prop p (lit ''aud'') = Inr JUndefined \<longrightarrow> checkAudience p = Inl ClaimAudienceMismatch)
   \<and> ((lit ''aud'') \<notin> fst ` set kvs \<longrightarrow> checkAudience (JObj kvs) = Inl ClaimAudienceMismatch)
   \<and> (parseJWT E token = Inr t \<and> checkExpiry E (payload t) = Inr ()
        \<and> get_prop (payload t) (lit ''aud'') = Inr JUndefined
        \<longrightarrow> verifyJWT E token = ([], Inl ClaimAudienceMismatch))"
proof (intro conjI impI)
  show "\<not> strict_eq JUndefined (JStr CLIENT_ID)" by simp
next
  assume "get_prop p (lit ''aud'') = Inr JUndefined"
  then show "checkAudience p = Inl ClaimAudienceMismatch"
    by (simp add: checkAudience_def)
next
  assume "(lit ''aud'') \<notin> fst ` set kvs"
  then have "map_of kvs (lit ''aud'') = None" by (simp add: map_of_eq_None_iff)
  then show "checkAudience (JObj kvs) = Inl ClaimAudienceMismatch"
    by (simp add: checkAudience_def)
next
  assume a: "parseJWT E token = Inr t \<and> checkExpiry E (payload t) = Inr ()
      \<and> get_prop (payload t) (lit ''aud'') = Inr JUndefined"
  then have "get_prop (payload t) (lit ''aud'') \<noteq> Inr (JStr CLIENT_ID)" by simp
  with a show "verifyJWT E token = ([], Inl ClaimAudienceMismatch)"
    by (simp add: audience_stops)
qed

text \<open>The example token whose payload has an issuer and an expiry and no \<open>aud\<close>.\<close>

theorem missing_audience_rejected_witness:
  "parseJWT ex_env (token_of seg_header_rs256 seg_payload_noaud (lit ''c2ln'')) =
      Inr \<lparr>header = header_rs256, payload = payload_noaud, signature = lit ''c2ln'',
           raw = [seg_header_rs256, seg_payload_noaud, lit ''c2ln'']\<rparr>
   \<and> checkExpiry ex_env payload_noaud = Inr ()
   \<and> get_prop payload_noaud (lit ''aud'') = Inr JUndefined
   \<and> (lit ''aud'') \<notin> fst ` set [(lit ''iss'', JStr (lit ''accounts.google.com'')), (lit ''exp'', JNum 2000000000)]
   \<and> checkAudience payload_noaud = Inl ClaimAudienceMismatch
   \<and> checkAudience (JObj [(lit ''iss'', JStr (lit ''accounts.google.com'')), (lit ''exp'', JNum 2000000000)])
        = Inl ClaimAudienceMismatch
   \<and> verifyJWT ex_env (token_of seg_header_rs256 seg_payload_noaud (lit ''c2ln'')) =
        ([], Inl ClaimAudienceMismatch)"
proof -
  let ?tok = "token_of seg_header_rs256 seg_payload_noaud (lit ''c2ln'')"
  let ?t = "\<lparr>header = header_rs256, payload = payload_noaud, signature = lit ''c2ln'',
           raw = [seg_header_rs256, seg_payload_noaud, lit ''c2ln'']\<rparr>"
  let ?kvs = "[(lit ''iss'', JStr (lit ''accounts.google.com'')), (lit ''exp'', JNum 2000000000)]"
  have p: "parseJWT ex_env ?tok = Inr ?t"
    by (rule parse_token [OF dots_header_rs256 dots_payload_noaud _ decode_header_rs256
          parse_header_rs256 decode_payload_noaud parse_payload_noaud]) (simp add: lit_simps)
  have x: "checkExpiry ex_env payload_noaud = Inr ()"
    by (simp add: run_simps payload_noaud_def)
  have a: "get_prop payload_noaud (lit ''aud'') = Inr JUndefined"
    by (simp add: payload_noaud_def)
  have k: "(lit ''aud'') \<notin> fst ` set ?kvs" by simp
  have 1: "checkAudience payload_noaud = Inl ClaimAudienceMismatch"
    using missing_audience_rejected [of payload_noaud] a by simp
  have 2: "checkAudience (JObj ?kvs) = Inl ClaimAudienceMismatch"
    using missing_audience_rejected [of _ ?kvs] k by blast
  have 3: "verifyJWT ex_env ?tok = ([], Inl ClaimAudienceMismatch)"
    using missing_audience_rejected [of _ _ ex_env ?tok ?t] p x a by simp
  from p x a k 1 2 3 show ?thesis by blast
qed

lemma issuer_stops:
  assumes "parseJWT E token = Inr t" and "checkExpiry E (payload t) = Inr ()"
    and "checkAudience (payload t) = Inr ()"
    and "get_prop (payload t) (lit ''iss'') \<noteq> Inr (JStr (lit ''https://accounts.google.com''))"
    and "get_prop (payload t) (lit ''iss'') \<noteq> Inr (JStr (lit ''accounts.google.com''))"
  shows "verifyJWT E token = ([], Inl ClaimIssuerMismatch)"
proof -
  from checkExpiry_defined [OF assms(2)] obtain i where i: "get_prop (payload t) (lit ''iss'') = Inr i"
    by blast
  with assms(4,5) have "i \<noteq> JStr (lit ''https://accounts.google.com'')"
    and "i \<noteq> JStr (lit ''accounts.google.com'')" by simp_all
  with i have "checkIssuer (payload t) = Inl ClaimIssuerMismatch"
    by (rule checkIssuer_mismatch)
  with assms(2,3) have "validateClaims E (payload t) = Inl ClaimIssuerMismatch"
    by (simp add: validateClaims_def)
  with assms(1) show ?thesis by (rule verifyJWT_claims)
qed

text \<open>
  Claim C4. The issuer check passes exactly when \<open>iss\<close> is one of the two strings
  \<open>https://accounts.google.com\<close> and \<open>accounts.google.com\<close>, compared by strict
  equality, not by a substring match. Every other value of \<open>iss\<close> fails the check with
  \<open>ClaimIssuerMismatch\<close> ("Invalid token issuer"), which is then the error of the
  verification of every token that passes the two checks before it.
\<close>

theorem issuer_allow_list:
  "(checkIssuer p = Inr () \<longleftrightarrow>
       get_prop p (lit ''iss'') = Inr (JStr (lit ''https://accounts.google.com''))
       \<or> get_prop p (lit ''iss'') = Inr (JStr (lit ''accounts.google.com'')))
   \<and> (get_prop p (lit ''iss'') = Inr i \<and> i \<noteq> JStr (lit ''https://accounts.google.com'')
        \<and> i \<noteq> JStr (lit ''accounts.google.com'')
        \<longrightarrow> checkIssuer p = Inl ClaimIssuerMismatch)
   \<and> (parseJWT E token = Inr t \<and> checkExpiry E (payload t) = Inr ()
        \<and> checkAudience (payload t) = Inr ()
        \<and> get_prop (payload t) (lit ''iss'') \<noteq> Inr (JStr (lit ''https://accounts.google.com''))
        \<and> get_prop (payload t) (lit ''iss'') \<noteq> Inr (JStr (lit ''accounts.google.com''))
        \<longrightarrow> verifyJWT E token = ([], Inl ClaimIssuerMismatch))"
  using checkIssuer_iff [of p] checkIssuer_mismatch [of p i] issuer_stops [of E token t]
  by blast

text \<open>
  The example token whose \<open>iss\<close> is \<open>accounts.google.com.evil.example\<close>: it begins with
  an accepted issuer and is rejected. The two accepted forms pass.
\<close>

theorem issuer_allow_list_witness:
  "take 19 (lit ''accounts.google.com.evil.example'') = lit ''accounts.google.com''
   \<and> parseJWT ex_env (token_of seg_header_rs256 seg_payload_badiss (lit ''c2ln'')) =
      Inr \<lparr>header = header_rs256, payload = payload_badiss, signature = lit ''c2ln'',
           raw = [seg_header_rs256, seg_payload_badiss, lit ''c2ln'']\<rparr>
   \<and> checkExpiry ex_env payload_badiss = Inr ()
   \<and> checkAudience payload_badiss = Inr ()
   \<and> get_prop payload_badiss (lit ''iss'') = Inr (JStr (lit ''accounts.google.com.evil.example''))
   \<and> JStr (lit ''accounts.google.com.evil.example'') \<noteq> JStr (lit ''https://accounts.google.com'')
   \<and> JStr (lit ''accounts.google.com.evil.example'') \<noteq> JStr (lit ''accounts.google.com'')
   \<and> checkIssuer payload_badiss = Inl ClaimIssuerMismatch
   \<and> verifyJWT ex_env (token_of seg_header_rs256 seg_payload_badiss (lit ''c2ln'')) =
        ([], Inl ClaimIssuerMismatch)
   \<and> get_prop payload_ok (lit ''iss'') = Inr (JStr (lit ''accounts.google.com''))
   \<and> checkIssuer payload_ok = Inr ()
   \<and> checkIssuer (JObj [(lit ''iss'', JStr (lit ''https://accounts.google.com''))]) = Inr ()"
proof -
  let ?tok = "token_of seg_header_rs256 seg_payload_badiss (lit ''c2ln'')"
  let ?t = "\<lparr>header = header_rs256, payload = payload_badiss, signature = lit ''c2ln'',
           raw = [seg_header_rs256, seg_payload_badiss, lit ''c2ln'']\<rparr>"
  let ?i = "JStr (lit ''accounts.google.com.evil.example'')"
  have p: "parseJWT ex_env ?tok = Inr ?t"
    by (rule parse_token [OF dots_header_rs256 dots_payload_badiss _ decode_header_rs256
          parse_header_rs256 decode_payload_badiss parse_payload_badiss]) (simp add: lit_simps)
  have x: "checkExpiry ex_env payload_badiss = Inr ()"
    by (simp add: run_simps payload_badiss_def)
  have a: "checkAudience payload_badiss = Inr ()"
    by (simp add: run_simps payload_badiss_def)
  have g: "get_prop payload_badiss (lit ''iss'') = Inr ?i"
    by (simp add: payload_badiss_def)
  have d: "?i \<noteq> JStr (lit ''https://accounts.google.com'')" "?i \<noteq> JStr (lit ''accounts.google.com'')"
    by simp_all
  have o: "get_prop payload_ok (lit ''iss'') = Inr (JStr (lit ''accounts.google.com''))"
    by (simp add: payload_ok_def)
  have h: "get_prop (JObj [(lit ''iss'', JStr (lit ''https://accounts.google.com''))]) (lit ''iss'')
      = Inr (JStr (lit ''https://accounts.google.com''))"
    by simp
  have 1: "checkIssuer payload_badiss = Inl ClaimIssuerMismatch"
    using issuer_allow_list [of payload_badiss ?i] g d by simp
  have 2: "verifyJWT ex_env ?tok = ([], Inl ClaimIssuerMismatch)"
    using issuer_allow_list [of _ _ ex_env ?tok ?t] p x a g d by simp
  have 3: "checkIssuer payload_ok = Inr ()"
    using issuer_allow_list [of payload_ok] o by simp
  have 4: "checkIssuer (JObj [(lit ''iss'', JStr (lit ''https://accounts.google.com''))]) = Inr ()"
    using issuer_allow_list [of "JObj [(lit ''iss'', JStr (lit ''https://accounts.google.com''))]"] h
    by simp
  from p x a g d 1 2 o 3 4 show ?thesis by (simp add: take_lit)
qed

subsection \<open>The key and the algorithm\<close>

text \<open>
  Claim C6. For every token that reaches the key lookup (it parses, its claims are valid
  and the key set has been read) and whose header \<open>kid\<close> is strictly equal to the \<open>kid\<close>
  of no record of the key set, verification fails with \<open>KeyNotFound\<close> ("Public key not
  found"); the read of the key set is its only effect, no signature is verified.
\<close>

theorem unknown_kid_key_not_found:
  assumes "parseJWT E token = Inr t"
    and "validateClaims E (payload t) = Inr ()"
    and "fetchGooglePublicKeys E = Some keys"
    and "get_prop keys (lit ''keys'') = Inr (JArr ks)"
    and "\<forall>k \<in> set ks. \<exists>kk hk. get_prop k (lit ''kid'') = Inr kk
           \<and> get_prop (header t) (lit ''kid'') = Inr hk \<and> \<not> strict_eq kk hk"
  shows "verifyJWT E token = ([FetchKeys], Inl KeyNotFound)"
proof -
  from assms(5) have "find_kid ks (header t) = Inr JUndefined" by (rule find_kid_none)
  with assms(3,4) have "lookupKey (fetchGooglePublicKeys E) (header t) = Inl KeyNotFound"
    by (simp add: lookupKey_def)
  with assms(1,2) show ?thesis by (simp add: verifyJWT_parsed verifyParsed_def)
qed

text \<open>The example token whose header names the key \<open>k9\<close>; the key set has \<open>k1\<close> alone.\<close>

theorem unknown_kid_key_not_found_witness:
  "parseJWT ex_env (token_of seg_header_k9 seg_payload_ok (lit ''c2ln'')) =
      Inr \<lparr>header = header_k9, payload = payload_ok, signature = lit ''c2ln'',
           raw = [seg_header_k9, seg_payload_ok, lit ''c2ln'']\<rparr>
   \<and> validateClaims ex_env payload_ok = Inr ()
   \<and> fetchGooglePublicKeys ex_env = Some ex_keys
   \<and> get_prop ex_keys (lit ''keys'') = Inr (JArr [ex_jwk])
   \<and> get_prop ex_jwk (lit ''kid'') = Inr (JStr (lit ''k1''))
   \<and> get_prop header_k9 (lit ''kid'') = Inr (JStr (lit ''k9''))
   \<and> \<not> strict_eq (JStr (lit ''k1'')) (JStr (lit ''k9''))
   \<and> verifyJWT ex_env (token_of seg_header_k9 seg_payload_ok (lit ''c2ln'')) =
        ([FetchKeys], Inl KeyNotFound)"
proof -
  let ?tok = "token_of seg_header_k9 seg_payload_ok (lit ''c2ln'')"
  let ?t = "\<lparr>header = header_k9, payload = payload_ok, signature = lit ''c2ln'',
           raw = [seg_header_k9, seg_payload_ok, lit ''c2ln'']\<rparr>"
  have p: "parseJWT ex_env ?tok = Inr ?t"
    by (rule parse_token [OF dots_header_k9 dots_payload_ok _ decode_header_k9
          parse_header_k9 decode_payload_ok parse_payload_ok]) (simp add: lit_simps)
  have v: "validateClaims ex_env payload_ok = Inr ()"
    by (simp add: run_simps payload_ok_def)
  have f: "fetchGooglePublicKeys ex_env = Some ex_keys" by (simp add: ex_env_def)
  have g: "get_prop ex_keys (lit ''keys'') = Inr (JArr [ex_jwk])" by (simp add: ex_keys_def)
  have k1: "get_prop ex_jwk (lit ''kid'') = Inr (JStr (lit ''k1''))" by (simp add: ex_jwk_def)
  have k9: "get_prop header_k9 (lit ''kid'') = Inr (JStr (lit ''k9''))" by (simp add: header_k9_def)
  have n: "\<not> strict_eq (JStr (lit ''k1'')) (JStr (lit ''k9''))" by simp
  have a: "\<forall>k \<in> set [ex_jwk]. \<exists>kk hk. get_prop k (lit ''kid'') = Inr kk
           \<and> get_prop (header ?t) (lit ''kid'') = Inr hk \<and> \<not> strict_eq kk hk"
    using k1 k9 n by simp
  have v': "validateClaims ex_env (payload ?t) = Inr ()" using v by simp
  have "verifyJWT ex_env ?tok = ([FetchKeys], Inl KeyNotFound)"
    by (rule unknown_kid_key_not_found [OF p v' f g a])
  with p v f g k1 k9 n show ?thesis by simp
qed

text \<open>
  Claim C2, as stated: a token whose header declares an algorithm outside the allow-list
  is rejected with \<open>UnsupportedAlgorithm\<close> before any verification primitive is
  selected. The program does not: the example token whose header is
  \<open>{"alg": "none", "kid": "k1"}\<close> and whose signature segment is empty goes through the
  key lookup and the RSA-SHA256 verification, and is rejected there with
  \<open>InvalidSignature\<close>.
\<close>

theorem alg_none_counterexample:
  "get_prop header_none (lit ''alg'') = Inr (JStr (lit ''none''))
   \<and> parseJWT ex_env (token_of seg_header_none seg_payload_ok []) =
      Inr \<lparr>header = header_none, payload = payload_ok, signature = [],
           raw = [seg_header_none, seg_payload_ok, []]\<rparr>
   \<and> verifyJWT ex_env (token_of seg_header_none seg_payload_ok []) =
        ([FetchKeys, VerifySignature ex_key (seg_header_none @ lit ''.'' @ seg_payload_ok) []],
         Inl InvalidSignature)"
proof -
  have p: "parseJWT ex_env (token_of seg_header_none seg_payload_ok []) =
      Inr \<lparr>header = header_none, payload = payload_ok, signature = [],
           raw = [seg_header_none, seg_payload_ok, []]\<rparr>"
    by (rule parse_token [OF dots_header_none dots_payload_ok _ decode_header_none
          parse_header_none decode_payload_ok parse_payload_ok]) (simp add: lit_simps)
  have "get_prop header_none (lit ''alg'') = Inr (JStr (lit ''none''))" by (simp add: header_none_def)
  with p show ?thesis by (simp add: verifyJWT_parsed [OF p] run_none)
qed

text \<open>
  Claim C2, amended. No token is rejected with \<open>UnsupportedAlgorithm\<close>, and the header's
  \<open>alg\<close> field is never used to select the verification: the program does not read it.
  The primitive is RSA-SHA256 for every token, and the verification of a parsed token
  depends on its header through the \<open>kid\<close> field alone, so two headers with the same
  \<open>kid\<close> give the same effects and the same result.
\<close>

theorem algorithm_never_consulted:
  "snd (verifyJWT E token) \<noteq> Inl UnsupportedAlgorithm
   \<and> (get_prop h (lit ''kid'') = get_prop (header t) (lit ''kid'')
        \<longrightarrow> verifyParsed E (t\<lparr>header := h\<rparr>) = verifyParsed E t)"
proof (intro conjI impI)
  show "snd (verifyJWT E token) \<noteq> Inl UnsupportedAlgorithm"
    using verifyJWT_errors [of E token UnsupportedAlgorithm] by auto
next
  assume "get_prop h (lit ''kid'') = get_prop (header t) (lit ''kid'')"
  then show "verifyParsed E (t\<lparr>header := h\<rparr>) = verifyParsed E t"
    by (rule verifyParsed_header)
qed

text \<open>
  The well-formed example token, and the same token with the header that declares the
  algorithm \<open>none\<close>: both are accepted under the valid RSA signature.
\<close>

theorem algorithm_never_consulted_witness:
  "get_prop header_none (lit ''kid'') = get_prop header_rs256 (lit ''kid'')
   \<and> verifyParsed ex_env \<lparr>header = header_none, payload = payload_ok, signature = lit ''c2ln'',
           raw = [seg_header_rs256, seg_payload_ok, lit ''c2ln'']\<rparr> =
      ([FetchKeys, VerifySignature ex_key (seg_header_rs256 @ lit ''.'' @ seg_payload_ok)
          (bytes ''sig'')], Inr payload_ok)
   \<and> snd (verifyJWT ex_env (token_of seg_header_none seg_payload_ok [])) \<noteq>
        Inl UnsupportedAlgorithm"
proof -
  let ?t = "\<lparr>header = header_rs256, payload = payload_ok, signature = lit ''c2ln'',
           raw = [seg_header_rs256, seg_payload_ok, lit ''c2ln'']\<rparr>"
  have k: "get_prop header_none (lit ''kid'') = get_prop header_rs256 (lit ''kid'')"
    by (simp add: header_none_def header_rs256_def)
  have "verifyParsed ex_env (?t\<lparr>header := header_none\<rparr>) = verifyParsed ex_env ?t"
    using algorithm_never_consulted [of ex_env _ header_none ?t] k by simp
  then have 1: "verifyParsed ex_env \<lparr>header = header_none, payload = payload_ok,
           signature = (lit ''c2ln''), raw = [seg_header_rs256, seg_payload_ok, lit ''c2ln'']\<rparr> =
      ([FetchKeys, VerifySignature ex_key (seg_header_rs256 @ lit ''.'' @ seg_payload_ok)
          (bytes ''sig'')], Inr payload_ok)"
    by (simp add: run_ok)
  have 2: "snd (verifyJWT ex_env (token_of seg_header_none seg_payload_ok [])) \<noteq>
        Inl UnsupportedAlgorithm"
    using algorithm_never_consulted [of ex_env "token_of seg_header_none seg_payload_ok []"]
    by simp
  from k 1 2 show ?thesis by simp
qed

end
